theory Spec2Isabelle
  imports Complex_Main
begin

section \<open>Python values and strings\<close>

text \<open>
  The program is \<^verbatim>\<open>backend/spotify_client.py\<close>. Its functions take the Spotify client
  \<^verbatim>\<open>sp\<close>, a \<^verbatim>\<open>params\<close> dictionary and module-level caches, and use the \<^verbatim>\<open>random\<close>
  module. In this development the client is a record of response functions (an absent
  response stands for a raised exception), the random draws are a record of their own,
  the caches are passed in and returned, and an exception that leaves a function is the
  left injection of a sum.

  Strings are lists of 8-bit characters, read as the code points 0 to 255 (Latin-1);
  \<^verbatim>\<open>str.lower\<close> and \<^verbatim>\<open>str.strip\<close> are what Python computes on such strings. Every
  character outside \<^verbatim>\<open>a-z\<close> (and the hyphen) separates tokens, as in the source's regular
  expressions.
\<close>

datatype exn =
  TypeError | ValueError | IndexError | KeyError | AttributeError | UnboundLocalError

text \<open>
  A value of the \<^verbatim>\<open>params\<close> dictionary where the source inspects its type at run time:
  \<^verbatim>\<open>None\<close> (or a missing key), a string, a list or tuple, or any other truthy value.
\<close>

datatype pyval = PNone | PStr string | PList "pyval list" | POther

fun truthy :: "pyval \<Rightarrow> bool" where
  "truthy PNone = False"
| "truthy (PStr s) = (s \<noteq> [])"
| "truthy (PList xs) = (xs \<noteq> [])"
| "truthy POther = True"

text \<open>\<^verbatim>\<open>a or b\<close> on such values.\<close>

definition py_or :: "pyval \<Rightarrow> pyval \<Rightarrow> pyval" where
  "py_or a b = (if truthy a then a else b)"

text \<open>
  \<^verbatim>\<open>str.lower\<close>: the capitals \<^verbatim>\<open>A-Z\<close>, and the Latin-1 capitals at 0xC0 to 0xDE (without
  the multiplication sign 0xD7), move to the letter 0x20 above them.
\<close>

definition lower_char :: "char \<Rightarrow> char" where
  "lower_char c =
     (case map_of (zip ''ABCDEFGHIJKLMNOPQRSTUVWXYZ'' ''abcdefghijklmnopqrstuvwxyz'') c of
        Some d \<Rightarrow> d
      | None \<Rightarrow>
          (let k = (of_char c :: nat)
           in if 0xC0 \<le> k \<and> k \<le> 0xDE \<and> k \<noteq> 0xD7 then char_of (k + 0x20) else c))"

definition lower :: "string \<Rightarrow> string" where
  "lower s = map lower_char s"

text \<open>\<^verbatim>\<open>str.strip\<close>: the characters Python counts as white space, from both ends.\<close>

definition is_space :: "char \<Rightarrow> bool" where
  "is_space c = (c \<in> set [CHR '' '', CHR 0x09, CHR 0x0A, CHR 0x0B, CHR 0x0C, CHR 0x0D,
                           CHR 0x1C, CHR 0x1D, CHR 0x1E, CHR 0x1F, CHR 0x85, CHR 0xA0])"

definition strip :: "string \<Rightarrow> string" where
  "strip s = rev (dropWhile is_space (rev (dropWhile is_space s)))"

definition is_letter :: "char \<Rightarrow> bool" where
  "is_letter c = (c \<in> set ''abcdefghijklmnopqrstuvwxyz'')"

definition is_genre_char :: "char \<Rightarrow> bool" where
  "is_genre_char c = (is_letter c \<or> c = CHR ''-'')"

text \<open>
  \<^verbatim>\<open>re.split(r"[^...]+", s)\<close> for a negated character class: the pieces between maximal
  runs of characters outside the class \<open>keep\<close>, empty pieces at both ends included.
  \<open>insep\<close> tells that the scan is inside a separator run, \<open>cur\<close> is the piece being read.
\<close>

fun re_split :: "(char \<Rightarrow> bool) \<Rightarrow> bool \<Rightarrow> string \<Rightarrow> string \<Rightarrow> string list" where
  "re_split keep insep cur [] = [cur]"
| "re_split keep insep cur (c # cs) =
     (if keep c then re_split keep False (cur @ [c]) cs
      else if insep then re_split keep True cur cs
      else cur # re_split keep True [] cs)"

text \<open>\<^verbatim>\<open>sub in s\<close> on strings.\<close>

fun starts_with :: "string \<Rightarrow> string \<Rightarrow> bool" where
  "starts_with [] s = True"
| "starts_with (p # ps) [] = False"
| "starts_with (p # ps) (c # cs) = (p = c \<and> starts_with ps cs)"

fun str_contains :: "string \<Rightarrow> string \<Rightarrow> bool" where
  "str_contains sub [] = (sub = [])"
| "str_contains sub (c # cs) = (starts_with sub (c # cs) \<or> str_contains sub cs)"

section \<open>The genre vocabulary and the genre normalizer\<close>

text \<open>
  \<^verbatim>\<open>DEFAULT_SEED_GENRES\<close>: the module binds the name twice, last to a set of these sixteen
  names. A Python set is modelled as a list without repetitions. The code asks a set for
  membership only, except in \<^verbatim>\<open>list(allowed)[0]\<close> of \<^verbatim>\<open>recommend_tracks\<close>: which member
  comes first there is left to the run time, and is an argument of the model.
\<close>

definition DEFAULT_SEED_GENRES :: "string list" where
  "DEFAULT_SEED_GENRES =
     [''pop'', ''dance-pop'', ''edm'', ''house'', ''hip-hop'', ''r-n-b'',
      ''indie-pop'', ''alt-rock'', ''trap'', ''electronic'', ''chill'',
      ''ambient'', ''dancehall'', ''reggaeton'', ''funk'', ''soul'']"

text \<open>
  The part of the client the vocabulary needs: \<open>sp_genre_seeds\<close> is the answer of
  \<^verbatim>\<open>recommendation_genre_seeds()\<close> (or of its older name), already reduced to its
  \<^verbatim>\<open>"genres"\<close> list; \<open>None\<close> when the call raises. The other fields are the responses used
  further down. An \<open>artist\<close> record stands for a dictionary that is not empty; the answer
  of \<open>sp_artist\<close> is \<open>None\<close> when the call raises and when it returns \<^verbatim>\<open>None\<close> or the
  empty dictionary, which the code (\<^verbatim>\<open>if a:\<close>, \<^verbatim>\<open>a.get("genres") or []\<close>) does not tell
  apart from a failed call.
\<close>

record track =
  tr_uri :: "string option"
  tr_id :: "string option"
  tr_artist_ids :: "string option list"

record artist =
  ar_id :: "string option"
  ar_name :: "string option"
  ar_images :: "string option list"
  ar_url :: "string option"
  ar_genres :: "string list"

datatype album_field = AlbumAbsent | AlbumNull | AlbumDict "string option"

record track_meta =
  tm_name :: "string option"
  tm_album :: album_field

record features =
  f_instrumentalness :: "real option"
  f_speechiness :: "real option"
  f_energy :: "real option"
  f_tempo :: "real option"
  f_duration_ms :: "int option"

record rec_request =
  rq_limit :: int
  rq_market :: "string option"
  rq_target_energy :: "real option"
  rq_target_valence :: "real option"
  rq_target_danceability :: "real option"
  rq_target_acousticness :: "real option"
  rq_target_tempo :: "int option"
  rq_seed_artists :: "string list"
  rq_seed_genres :: "string list"
  rq_seed_tracks :: "string list"

record spotify =
  sp_genre_seeds :: "string list option"
  sp_search_tracks :: "string \<Rightarrow> nat \<Rightarrow> track list option"
  sp_search_artists :: "string \<Rightarrow> artist list option"
  sp_artist :: "string \<Rightarrow> artist option"
  sp_tracks :: "string list \<Rightarrow> track_meta option list option"
  sp_audio_features :: "string list \<Rightarrow> features option list option"
  sp_recommendations :: "rec_request \<Rightarrow> track list option"
  sp_artist_top_tracks :: "string \<Rightarrow> track list option"

text \<open>
  \<^verbatim>\<open>_allowed_genres\<close>, with the module's \<^verbatim>\<open>_ALLOWED_GENRES_CACHE\<close> as an argument and as
  the second component of the result. A cache that is \<^verbatim>\<open>None\<close> or empty is not used.
\<close>

definition allowed_genres :: "spotify \<Rightarrow> string list option \<Rightarrow> string list \<times> string list option" where
  "allowed_genres sp cache =
     (case cache of
        Some (g # gs) \<Rightarrow> (g # gs, cache)
      | _ \<Rightarrow>
         (case sp_genre_seeds sp of
            Some (s # ss) \<Rightarrow> (remdups (s # ss), Some (remdups (s # ss)))
          | _ \<Rightarrow> (DEFAULT_SEED_GENRES, Some DEFAULT_SEED_GENRES)))"

text \<open>\<^verbatim>\<open>_split_tokens\<close>.\<close>

definition split_tokens :: "string \<Rightarrow> string list" where
  "split_tokens s = filter (\<lambda>t. t \<noteq> []) (re_split is_genre_char False [] (lower s))"

definition synonyms :: "(string \<times> string) list" where
  "synonyms =
     [(''lofi'', ''chillhop''), (''lo-fi'', ''chillhop''),
      (''hiphop'', ''hip-hop''), (''hip-hop'', ''hip-hop''),
      (''rnb'', ''r-n-b''), (''r&b'', ''r-n-b''),
      (''indiepop'', ''indie-pop''), (''alt'', ''alternative''),
      (''altrock'', ''alt-rock''), (''electro'', ''electronic''),
      (''dance'', ''dance-pop''), (''party'', ''dance-pop''),
      (''workout'', ''edm''), (''club'', ''house''),
      (''reggae'', ''dancehall'')]"

text \<open>The tokens of the \<^verbatim>\<open>genres\<close> argument: of a string, or of the strings of a list.\<close>

definition genre_tokens :: "pyval \<Rightarrow> string list" where
  "genre_tokens genres =
     (case genres of
        PStr s \<Rightarrow> split_tokens s
      | PList gs \<Rightarrow> concat (map (\<lambda>g. case g of PStr s \<Rightarrow> split_tokens s | _ \<Rightarrow> []) gs)
      | _ \<Rightarrow> [])"

text \<open>
  The loop that folds synonyms and removes repetitions, keeping the first occurrence:
  \<open>cleaned\<close> and \<open>seen\<close> are the loop's two variables.
\<close>

fun clean_tokens :: "string list \<Rightarrow> string list \<Rightarrow> string set \<Rightarrow> string list" where
  "clean_tokens [] cleaned seen = cleaned"
| "clean_tokens (t # ts) cleaned seen =
     (let t' = (case map_of synonyms t of Some s \<Rightarrow> s | None \<Rightarrow> t)
      in if t' \<noteq> [] \<and> t' \<notin> seen
         then clean_tokens ts (cleaned @ [t']) (insert t' seen)
         else clean_tokens ts cleaned seen)"

definition fallback_genres :: "string list" where
  "fallback_genres = [''dance-pop'', ''edm'', ''hip-hop'', ''indie-pop'', ''pop'', ''house'', ''trap'']"

text \<open>\<^verbatim>\<open>_normalize_genre_list\<close> once the vocabulary \<open>allowed\<close> is known.\<close>

definition normalize_with :: "string list \<Rightarrow> pyval \<Rightarrow> string list" where
  "normalize_with allowed genres =
     (let cleaned = clean_tokens (genre_tokens genres) [] {};
          valid = filter (\<lambda>g. g \<in> set allowed) cleaned;
          valid = (if valid = []
                   then take 5 (filter (\<lambda>g. g \<in> set allowed) fallback_genres)
                   else valid)
      in take 5 valid)"

text \<open>
  The vocabulary in effect for a call: \<^verbatim>\<open>_allowed_genres(sp) or DEFAULT_SEED_GENRES\<close>.
\<close>

definition vocabulary_in_effect :: "spotify \<Rightarrow> string list option \<Rightarrow> string list" where
  "vocabulary_in_effect sp cache =
     (let a = fst (allowed_genres sp cache) in if a \<noteq> [] then a else DEFAULT_SEED_GENRES)"

text \<open>\<^verbatim>\<open>_normalize_genre_list\<close>, returning the cache as \<^verbatim>\<open>_allowed_genres\<close> left it.\<close>

definition normalize_genre_list ::
  "spotify \<Rightarrow> string list option \<Rightarrow> pyval \<Rightarrow> string list \<times> string list option" where
  "normalize_genre_list sp cache genres =
     (let (a, cache') = allowed_genres sp cache;
          allowed = (if a \<noteq> [] then a else DEFAULT_SEED_GENRES)
      in (normalize_with allowed genres, cache'))"

section \<open>The target jitterer\<close>

text \<open>
  Floats are modelled as reals. \<^verbatim>\<open>round(x, 2)\<close> is the nearest multiple of 0.01; where
  the real number lies exactly between two multiples the model takes the even one, while
  the code's answer there follows the binary value of the float (either neighbour can
  come out). \<^verbatim>\<open>random.uniform(a, b)\<close> is \<^verbatim>\<open>a + (b - a) * random()\<close>, where the draw \<open>r\<close> of
  \<^verbatim>\<open>random()\<close> lies in \<open>[0, 1)\<close> and is an argument here.
\<close>

definition py_round :: "real \<Rightarrow> int" where
  "py_round x =
     (let f = \<lfloor>x\<rfloor>; d = x - of_int f
      in if d < 1 / 2 then f else if 1 / 2 < d then f + 1 else if even f then f else f + 1)"

definition round2 :: "real \<Rightarrow> real" where
  "round2 x = of_int (py_round (x * 100)) / 100"

definition uniform :: "real \<Rightarrow> real \<Rightarrow> real \<Rightarrow> real" where
  "uniform r a b = a + (b - a) * r"

text \<open>\<^verbatim>\<open>_jitter(val, spread=0.15)\<close>.\<close>

definition jitter :: "real option \<Rightarrow> real \<Rightarrow> real \<Rightarrow> real option" where
  "jitter val spread r =
     (case val of
        None \<Rightarrow> None
      | Some v \<Rightarrow>
          (let lo = max 0 (v - spread); hi = min 1 (v + spread)
           in Some (round2 (uniform r lo hi))))"

definition jitter_default_spread :: real where
  "jitter_default_spread = 15 / 100"

text \<open>\<^verbatim>\<open>_j(x, spread=0.12)\<close>, the copy local to \<^verbatim>\<open>recommend_tracks\<close>.\<close>

definition j_target :: "real option \<Rightarrow> real \<Rightarrow> real \<Rightarrow> real option" where
  "j_target x spread r =
     (case x of
        None \<Rightarrow> None
      | Some v \<Rightarrow>
          (let lo = max 0 (v - spread); hi = min 1 (v + spread)
           in Some (round2 (uniform r lo hi))))"

definition j_default_spread :: real where
  "j_default_spread = 12 / 100"

section \<open>The content filter\<close>

definition BLOCK_TERMS :: "string list" where
  "BLOCK_TERMS =
     [''rain'', ''rainfall'', ''thunder'', ''storm'', ''thunderstorm'',
      ''ocean'', ''waves'', ''water sounds'', ''nature sounds'',
      ''brown noise'', ''white noise'', ''pink noise'',
      ''asmr'', ''sleep'', ''meditation'', ''focus sounds'', ''relaxing sounds'']"

definition EXCEPT_PHRASES :: "string list" where
  "EXCEPT_PHRASES = [''purple rain'']"

text \<open>
  The argument of \<^verbatim>\<open>_looks_like_sfx\<close>: a track dictionary, or a name (\<^verbatim>\<open>None\<close> included).
  In a track dictionary the album is absent, \<^verbatim>\<open>null\<close> or a dictionary with an optional name.
\<close>

datatype sfx_arg = SfxTrack track_meta | SfxName "string option"

definition or_empty :: "string option \<Rightarrow> string" where
  "or_empty s = (case s of None \<Rightarrow> [] | Some t \<Rightarrow> t)"

text \<open>The tests of \<^verbatim>\<open>_looks_like_sfx\<close> on the lower-cased text \<open>hay\<close>.\<close>

definition sfx_hay :: "string \<Rightarrow> bool" where
  "sfx_hay hay =
     (if list_ex (\<lambda>p. str_contains p hay) EXCEPT_PHRASES then False
      else
        (let tokens = set (re_split is_letter False [] hay)
         in if list_ex (\<lambda>t. filter (\<lambda>c. c \<noteq> CHR '' '') t \<in> tokens) BLOCK_TERMS then True
            else list_ex (\<lambda>t. str_contains t hay) BLOCK_TERMS))"

text \<open>
  \<^verbatim>\<open>_looks_like_sfx\<close>. A \<^verbatim>\<open>null\<close> album makes \<^verbatim>\<open>.get("name")\<close> raise \<^verbatim>\<open>AttributeError\<close>.
\<close>

definition looks_like_sfx :: "sfx_arg \<Rightarrow> exn + bool" where
  "looks_like_sfx a =
     (case a of
        SfxTrack t \<Rightarrow>
          (case tm_album t of
             AlbumNull \<Rightarrow> Inl AttributeError
           | AlbumAbsent \<Rightarrow> Inr (sfx_hay (lower (or_empty (tm_name t)) @ '' '' @ lower []))
           | AlbumDict n \<Rightarrow> Inr (sfx_hay (lower (or_empty (tm_name t)) @ '' '' @ lower (or_empty n))))
      | SfxName s \<Rightarrow> Inr (sfx_hay (lower (or_empty s))))"

text \<open>
  The \<^verbatim>\<open>"tempo_bpm"\<close> entry of \<^verbatim>\<open>params\<close>: missing, an integer, a float, a string, or
  another value (\<^verbatim>\<open>None\<close>, a list) that \<^verbatim>\<open>int()\<close> rejects with \<^verbatim>\<open>TypeError\<close>.
\<close>

datatype tempo_field = TempoAbsent | TempoInt int | TempoFloat real | TempoStr string | TempoOther

text \<open>
  The entries of \<^verbatim>\<open>params\<close> that the module reads. A range is \<open>None\<close> when the key is
  missing or its value cannot be summed; both give the centre 0.5. A missing list is the
  empty list, a missing \<^verbatim>\<open>"instrumental_ok"\<close> is \<open>False\<close>.
\<close>

record params =
  p_user_artist_ids :: "string list"
  p_user_genres :: pyval
  p_genre_candidates :: pyval
  p_genres :: pyval
  p_energy_range :: "real list option"
  p_valence_range :: "real list option"
  p_danceability_range :: "real list option"
  p_acousticness_range :: "real list option"
  p_tempo_bpm :: tempo_field
  p_keywords :: "string list"
  p_instrumental_ok :: bool
  p_vocals_required :: "bool option"

text \<open>
  The tempo window of \<^verbatim>\<open>_audio_feature_filter\<close>:
  \<^verbatim>\<open>tempo_lo, tempo_hi = max(40, target - 20), min(220, target + 20)\<close> when the target is a
  number.
\<close>

definition tempo_window :: "tempo_field \<Rightarrow> (real \<times> real) option" where
  "tempo_window target =
     (case target of
        TempoInt t \<Rightarrow> Some (max 40 (of_int t - 20), min 220 (of_int t + 20))
      | TempoFloat t \<Rightarrow> Some (max 40 (t - 20), min 220 (t + 20))
      | _ \<Rightarrow> None)"

text \<open>\<^verbatim>\<open>u.split(":")[-1]\<close>.\<close>

definition last_segment :: "string \<Rightarrow> string" where
  "last_segment u = rev (takeWhile (\<lambda>c. c \<noteq> CHR '':'') (rev u))"

text \<open>
  The title and album loop over \<^verbatim>\<open>enumerate(meta)\<close>: an exception inside the \<^verbatim>\<open>try\<close>
  (from \<^verbatim>\<open>_looks_like_sfx\<close>, or from an index beyond the mask) leaves the mask as it is.
\<close>

fun title_loop :: "nat \<Rightarrow> track_meta option list \<Rightarrow> bool list \<Rightarrow> bool list" where
  "title_loop i [] kmask = kmask"
| "title_loop i (t # ts) kmask =
     title_loop (Suc i) ts
       (case looks_like_sfx (case t of None \<Rightarrow> SfxName None | Some m \<Rightarrow> SfxTrack m) of
          Inr True \<Rightarrow> (if i < length kmask then kmask[i := False] else kmask)
        | _ \<Rightarrow> kmask)"

text \<open>
  The tests on one feature dictionary, in the source's order; \<open>True\<close> when one of them
  clears the mask entry.
\<close>

definition feature_excluded :: "bool \<Rightarrow> (real \<times> real) option \<Rightarrow> features \<Rightarrow> bool" where
  "feature_excluded vocals_required win f =
     (let duration_ms = (case f_duration_ms f of None \<Rightarrow> 0 | Some d \<Rightarrow> d)
      in if 10 * 60 * 1000 \<le> duration_ms then True
         else if (case f_speechiness f of None \<Rightarrow> False | Some s \<Rightarrow> 66 / 100 \<le> s) then True
         else if vocals_required \<and>
                 (case f_instrumentalness f of None \<Rightarrow> False | Some x \<Rightarrow> 85 / 100 \<le> x) then True
         else if (case f_energy f of None \<Rightarrow> False | Some e \<Rightarrow> e \<le> 3 / 100) then True
         else (case (f_tempo f, win) of
                 (Some tempo, Some (tempo_lo, tempo_hi)) \<Rightarrow> tempo < tempo_lo - 8 \<or> tempo_hi + 8 < tempo
               | _ \<Rightarrow> False))"

text \<open>
  The loop over \<^verbatim>\<open>enumerate(feats)\<close>. It is outside any \<^verbatim>\<open>try\<close>: reading \<^verbatim>\<open>keep_mask[i]\<close>
  beyond the mask raises \<^verbatim>\<open>IndexError\<close>.
\<close>

fun feature_loop ::
  "bool \<Rightarrow> (real \<times> real) option \<Rightarrow> nat \<Rightarrow> features option list \<Rightarrow> bool list \<Rightarrow> exn + bool list" where
  "feature_loop vr win i [] kmask = Inr kmask"
| "feature_loop vr win i (f # fs) kmask =
     (if length kmask \<le> i then Inl IndexError
      else if \<not> kmask ! i then feature_loop vr win (Suc i) fs kmask
      else (case f of
              None \<Rightarrow> feature_loop vr win (Suc i) fs kmask
            | Some ft \<Rightarrow>
                feature_loop vr win (Suc i) fs
                  (if feature_excluded vr win ft then kmask[i := False] else kmask)))"

text \<open>\<^verbatim>\<open>_audio_feature_filter\<close>.\<close>

definition audio_feature_filter :: "spotify \<Rightarrow> string list \<Rightarrow> params \<Rightarrow> exn + string list" where
  "audio_feature_filter sp uris ps =
     (if uris = [] then Inr uris
      else
        (let instrumental_ok = p_instrumental_ok ps;
             vocals_required = (case p_vocals_required ps of None \<Rightarrow> \<not> instrumental_ok | Some v \<Rightarrow> v);
             win = tempo_window (p_tempo_bpm ps);
             ids = map last_segment uris;
             meta = (case sp_tracks sp ids of None \<Rightarrow> [] | Some m \<Rightarrow> m);
             keep_mask = title_loop 0 meta (replicate (length uris) True);
             feats = (case sp_audio_features sp ids of None \<Rightarrow> [] | Some fs \<Rightarrow> fs)
         in (case feature_loop vocals_required win 0 feats keep_mask of
               Inl e \<Rightarrow> Inl e
             | Inr kmask \<Rightarrow> Inr (map fst (filter snd (zip uris kmask))))))"

text \<open>
  The three filters \<^verbatim>\<open>recommend_tracks\<close> applies to the pool \<open>bag\<close>: the first pass, the
  pass with \<^verbatim>\<open>instrumental_ok = True\<close> and \<^verbatim>\<open>vocals_required = False\<close>, and the last resort
  \<^verbatim>\<open>[u for u in bag if not _looks_like_sfx(u)]\<close>, which hands the pool's identifiers
  themselves to \<^verbatim>\<open>_looks_like_sfx\<close>.
\<close>

definition filter_stage0 :: "spotify \<Rightarrow> string list \<Rightarrow> params \<Rightarrow> exn + string list" where
  "filter_stage0 sp bag ps = audio_feature_filter sp bag ps"

definition filter_stage1 :: "spotify \<Rightarrow> string list \<Rightarrow> params \<Rightarrow> exn + string list" where
  "filter_stage1 sp bag ps =
     audio_feature_filter sp bag (ps\<lparr>p_instrumental_ok := True, p_vocals_required := Some False\<rparr>)"

definition filter_stage2 :: "string list \<Rightarrow> string list" where
  "filter_stage2 bag = filter (\<lambda>u. looks_like_sfx (SfxName (Some u)) = Inr False) bag"

section \<open>The recommender\<close>

definition DEFAULT_MARKET :: string where
  "DEFAULT_MARKET = ''US''"

text \<open>
  The draws \<^verbatim>\<open>recommend_tracks\<close> takes from \<^verbatim>\<open>random\<close>: one \<^verbatim>\<open>random()\<close> inside each of the
  four \<^verbatim>\<open>_j\<close> calls, the \<^verbatim>\<open>randint(-8, 8)\<close> added to the tempo, the \<^verbatim>\<open>random()\<close> compared
  with 0.6, and the index drawn at each step of \<^verbatim>\<open>random.shuffle\<close>. With them goes the
  other choice a call leaves to the run time: \<open>set_first\<close>, the position in the vocabulary
  at which the iteration of \<^verbatim>\<open>list(allowed)\<close> starts.
\<close>

record rng =
  rnd_energy :: real
  rnd_valence :: real
  rnd_danceability :: real
  rnd_acousticness :: real
  rnd_tempo :: int
  rnd_seed_track :: real
  rnd_shuffle :: "nat \<Rightarrow> nat"
  set_first :: nat

text \<open>The local \<^verbatim>\<open>mid(pair, default=0.5)\<close>.\<close>

definition mid :: "real list option \<Rightarrow> real" where
  "mid pair = (case pair of None \<Rightarrow> 1 / 2 | Some xs \<Rightarrow> max 0 (min 1 (sum_list xs / 2)))"

text \<open>\<^verbatim>\<open>int(x)\<close> on a float truncates towards zero.\<close>

definition int_trunc :: "real \<Rightarrow> int" where
  "int_trunc x = (if 0 \<le> x then \<lfloor>x\<rfloor> else \<lceil>x\<rceil>)"

text \<open>
  \<^verbatim>\<open>int(s)\<close> on a string: white space around it is dropped, a sign may come first, and
  the rest is decimal digits, with single underscores allowed between two digits.
  \<open>prev\<close> tells that the character before was a digit.
\<close>

fun parse_digits :: "string \<Rightarrow> bool \<Rightarrow> nat \<Rightarrow> nat option" where
  "parse_digits [] prev acc = (if prev then Some acc else None)"
| "parse_digits (c # cs) prev acc =
     (if c = CHR ''_'' then (if prev \<and> cs \<noteq> [] then parse_digits cs False acc else None)
      else (case map_of (zip ''0123456789'' [0 ..< 10]) c of
              None \<Rightarrow> None
            | Some d \<Rightarrow> parse_digits cs True (10 * acc + d)))"

definition py_int_str :: "string \<Rightarrow> int option" where
  "py_int_str s =
     (case strip s of
        [] \<Rightarrow> None
      | c # cs \<Rightarrow>
          if c = CHR ''-'' then map_option (\<lambda>k. - int k) (parse_digits cs False 0)
          else if c = CHR ''+'' then map_option int (parse_digits cs False 0)
          else map_option int (parse_digits (c # cs) False 0))"

text \<open>\<^verbatim>\<open>int(params.get("tempo_bpm", 100))\<close>.\<close>

definition tempo_int :: "tempo_field \<Rightarrow> exn + int" where
  "tempo_int t =
     (case t of
        TempoAbsent \<Rightarrow> Inr 100
      | TempoInt i \<Rightarrow> Inr i
      | TempoFloat x \<Rightarrow> Inr (int_trunc x)
      | TempoStr s \<Rightarrow> (case py_int_str s of None \<Rightarrow> Inl ValueError | Some i \<Rightarrow> Inr i)
      | TempoOther \<Rightarrow> Inl TypeError)"

text \<open>\<^verbatim>\<open>_keywords_to_seed_tracks\<close>: the inner loop over the items of one search.\<close>

fun kw_items :: "nat \<Rightarrow> track list \<Rightarrow> string list \<Rightarrow> string list" where
  "kw_items max_tracks [] seeds = seeds"
| "kw_items max_tracks (t # ts) seeds =
     (case tr_id t of
        None \<Rightarrow> kw_items max_tracks ts seeds
      | Some i \<Rightarrow>
          if i = [] then kw_items max_tracks ts seeds
          else if max_tracks \<le> length (seeds @ [i]) then seeds @ [i]
          else kw_items max_tracks ts (seeds @ [i]))"

definition kw_query :: "string \<Rightarrow> string" where
  "kw_query kw = (if CHR '' '' \<in> set kw then ''track:\"'' @ kw @ ''\"'' else kw)"

text \<open>The outer loop; a search that raises ends the function with the seeds found so far.\<close>

fun kw_loop :: "spotify \<Rightarrow> nat \<Rightarrow> string list \<Rightarrow> string list \<Rightarrow> string list" where
  "kw_loop sp max_tracks [] seeds = seeds"
| "kw_loop sp max_tracks (kw # kws) seeds =
     (case sp_search_tracks sp (kw_query kw) 2 of
        None \<Rightarrow> seeds
      | Some items \<Rightarrow>
          (let seeds' = kw_items max_tracks items seeds
           in if max_tracks \<le> length seeds' then seeds' else kw_loop sp max_tracks kws seeds'))"

definition keywords_to_seed_tracks :: "spotify \<Rightarrow> string list \<Rightarrow> nat \<Rightarrow> string list" where
  "keywords_to_seed_tracks sp keywords max_tracks = kw_loop sp max_tracks (take 3 keywords) []"

text \<open>\<^verbatim>\<open>_artist_seed_genres\<close>.\<close>

definition artist_seed_genres ::
  "spotify \<Rightarrow> string list option \<Rightarrow> string list \<Rightarrow> nat \<Rightarrow> string list \<times> string list option" where
  "artist_seed_genres sp cache artist_ids limit =
     (let raw = concat (map (\<lambda>aid. case sp_artist sp aid of None \<Rightarrow> [] | Some a \<Rightarrow> ar_genres a)
                          (take 3 artist_ids));
          (gs, cache') = normalize_genre_list sp cache (PList (map PStr raw))
      in (take limit gs, cache'))"

text \<open>
  The seed variables of \<^verbatim>\<open>recommend_tracks\<close> (\<^verbatim>\<open>seed_artists\<close>, \<^verbatim>\<open>seed_genres\<close>) from the
  artist identifiers and the normalized candidates. \<^verbatim>\<open>picked[0]\<close> raises \<^verbatim>\<open>IndexError\<close> on an
  empty list. Subtraction on \<open>nat\<close> stops at zero, as \<^verbatim>\<open>max(0, 5 - len(seed_artists))\<close> does.
  \<^verbatim>\<open>list(allowed)\<close> is the vocabulary read from the position \<open>first\<close> on, so that any of its
  members can be the one \<^verbatim>\<open>picked[0]\<close> takes.
\<close>

definition upbeat_pref :: "string list" where
  "upbeat_pref = [''dance-pop'', ''edm'', ''house'', ''pop'', ''hip-hop'']"

definition build_seeds ::
  "spotify \<Rightarrow> nat \<Rightarrow> string list option \<Rightarrow> string list \<Rightarrow> string list
     \<Rightarrow> exn + (string list \<times> string list \<times> string list option)" where
  "build_seeds sp first cache user_artist_ids candidates =
     (let seed_artists = take 3 user_artist_ids;
          seed_genres = take (5 - length seed_artists) candidates;
          (seed_genres, cache) =
             (if seed_artists \<noteq> [] \<and> seed_genres = []
              then artist_seed_genres sp cache seed_artists (5 - length seed_artists)
              else (seed_genres, cache))
      in if seed_artists = [] \<and> seed_genres = []
         then
           (let (a, cache') = allowed_genres sp cache;
                allowed = (if a \<noteq> [] then a else DEFAULT_SEED_GENRES);
                picked = filter (\<lambda>g. g \<in> set allowed) upbeat_pref;
                picked = (if picked \<noteq> [] then picked else rotate first allowed)
            in (case picked of
                  [] \<Rightarrow> Inl IndexError
                | g # _ \<Rightarrow> Inr (seed_artists, [g], cache')))
         else Inr (seed_artists, seed_genres, cache))"

text \<open>The \<^verbatim>\<open>seeds\<close> dictionary: an entry is \<open>[]\<close> when its key is not set.\<close>

definition seeds_artists :: "string list \<Rightarrow> string list" where
  "seeds_artists seed_artists = (if seed_artists \<noteq> [] then take 5 seed_artists else [])"

definition seeds_genres :: "string list \<Rightarrow> string list \<Rightarrow> string list" where
  "seeds_genres seed_artists seed_genres =
     (if seed_genres \<noteq> [] \<and> length seed_artists < 5
      then take (5 - length seed_artists) seed_genres else [])"

text \<open>
  \<^verbatim>\<open>kwargs\<close>, the full request, with \<^verbatim>\<open>"seed_tracks"\<close> as the lines after it may set it.
\<close>

definition full_kwargs ::
  "spotify \<Rightarrow> rng \<Rightarrow> params \<Rightarrow> int \<Rightarrow> int \<Rightarrow> string list \<Rightarrow> string list \<Rightarrow> rec_request" where
  "full_kwargs sp g ps n tempo seed_artists seed_genres =
     (let kw_seeds = keywords_to_seed_tracks sp (p_keywords ps) 2;
          current_seed_count =
             length (seeds_artists seed_artists) + length (seeds_genres seed_artists seed_genres);
          room = 5 - current_seed_count
      in \<lparr> rq_limit = min 50 (max 10 n),
           rq_market = Some DEFAULT_MARKET,
           rq_target_energy = j_target (Some (mid (p_energy_range ps))) j_default_spread (rnd_energy g),
           rq_target_valence = j_target (Some (mid (p_valence_range ps))) j_default_spread (rnd_valence g),
           rq_target_danceability =
             j_target (Some (mid (p_danceability_range ps))) j_default_spread (rnd_danceability g),
           rq_target_acousticness =
             j_target (Some (mid (p_acousticness_range ps))) j_default_spread (rnd_acousticness g),
           rq_target_tempo = Some (tempo + rnd_tempo g),
           rq_seed_artists = seeds_artists seed_artists,
           rq_seed_genres = seeds_genres seed_artists seed_genres,
           rq_seed_tracks =
             (if kw_seeds \<noteq> [] \<and> rnd_seed_track g < 6 / 10 \<and> 0 < room then take 1 kw_seeds else []) \<rparr>)"

text \<open>\<^verbatim>\<open>slim\<close>, the request of the first fallback, and the request of the second.\<close>

definition slim_kwargs :: "rec_request \<Rightarrow> string list \<Rightarrow> string list \<Rightarrow> rec_request" where
  "slim_kwargs kwargs seed_artists seed_genres =
     \<lparr> rq_limit = rq_limit kwargs, rq_market = Some DEFAULT_MARKET,
       rq_target_energy = None, rq_target_valence = None, rq_target_danceability = None,
       rq_target_acousticness = None, rq_target_tempo = None,
       rq_seed_artists = seeds_artists seed_artists,
       rq_seed_genres = seeds_genres seed_artists seed_genres,
       rq_seed_tracks = [] \<rparr>"

definition genres_only_kwargs :: "rec_request \<Rightarrow> string list \<Rightarrow> rec_request" where
  "genres_only_kwargs kwargs seed_genres =
     \<lparr> rq_limit = rq_limit kwargs, rq_market = Some DEFAULT_MARKET,
       rq_target_energy = None, rq_target_valence = None, rq_target_danceability = None,
       rq_target_acousticness = None, rq_target_tempo = None,
       rq_seed_artists = [], rq_seed_genres = seed_genres, rq_seed_tracks = [] \<rparr>"

text \<open>
  The pool: \<^verbatim>\<open>bag\<close> (a list) and \<^verbatim>\<open>seen\<close> (a set), updated together by
  \<^verbatim>\<open>if u and u not in seen: seen.add(u); bag.append(u)\<close>.
\<close>

type_synonym pool = "string list \<times> string set"

definition add_uri :: "pool \<Rightarrow> track \<Rightarrow> pool" where
  "add_uri bs t =
     (case tr_uri t of
        None \<Rightarrow> bs
      | Some u \<Rightarrow> if u \<noteq> [] \<and> u \<notin> snd bs then (fst bs @ [u], insert u (snd bs)) else bs)"

text \<open>
  \<^verbatim>\<open>_add_from_recs\<close>. The function body binds the name twice; the second binding is the
  one in force when the calls are made: one call of the endpoint, every new identifier
  added, \<open>True\<close> unless the call raises.
\<close>

definition add_from_recs :: "spotify \<Rightarrow> rec_request \<Rightarrow> pool \<Rightarrow> bool \<times> pool" where
  "add_from_recs sp kwargs bs =
     (case sp_recommendations sp kwargs of
        None \<Rightarrow> (False, bs)
      | Some tracks \<Rightarrow> (True, foldl add_uri bs tracks))"

text \<open>
  The three calls of \<^verbatim>\<open>recommend_tracks\<close> (full request, first fallback, second
  fallback), with the list of the requests handed to the endpoint, in order.
\<close>

definition recs_chain ::
  "spotify \<Rightarrow> rec_request \<Rightarrow> string list \<Rightarrow> string list \<Rightarrow> rec_request list \<times> pool" where
  "recs_chain sp kwargs seed_artists seed_genres =
     (let (ok, bs) = add_from_recs sp kwargs ([], {});
          sent = [kwargs];
          (ok, bs, sent) =
             (if \<not> ok
              then (let slim = slim_kwargs kwargs seed_artists seed_genres;
                        (ok', bs') = add_from_recs sp slim bs
                    in (ok', bs', sent @ [slim]))
              else (ok, bs, sent));
          (ok, bs, sent) =
             (if \<not> ok \<and> seed_genres \<noteq> []
              then (let third = genres_only_kwargs kwargs seed_genres;
                        (ok', bs') = add_from_recs sp third bs
                    in (ok', bs', sent @ [third]))
              else (ok, bs, sent))
      in (sent, bs))"

text \<open>
  The identifiers a request brings into the pool: the non-empty \<^verbatim>\<open>"uri"\<close> entries of the
  tracks the endpoint returns for it, none when the call raises.
\<close>

definition returned :: "spotify \<Rightarrow> rec_request \<Rightarrow> string set" where
  "returned sp r =
     (case sp_recommendations sp r of
        None \<Rightarrow> {}
      | Some ts \<Rightarrow> {u. u \<noteq> [] \<and> Some u \<in> tr_uri ` set ts})"

text \<open>The loop over one artist's top tracks, with its counter \<^verbatim>\<open>taken\<close>.\<close>

fun take_top :: "int \<Rightarrow> track list \<Rightarrow> nat \<Rightarrow> pool \<Rightarrow> pool" where
  "take_top per_artist [] taken bs = bs"
| "take_top per_artist (t # ts) taken bs =
     (if per_artist \<le> int taken then bs
      else (case tr_uri t of
              None \<Rightarrow> take_top per_artist ts taken bs
            | Some u \<Rightarrow>
                if u \<noteq> [] \<and> u \<notin> snd bs
                then take_top per_artist ts (Suc taken) (fst bs @ [u], insert u (snd bs))
                else take_top per_artist ts taken bs))"

definition artist_quota :: "spotify \<Rightarrow> string list \<Rightarrow> int \<Rightarrow> pool \<Rightarrow> pool" where
  "artist_quota sp user_artist_ids n bs =
     (if user_artist_ids = [] then bs
      else
        (let target_total = max 8 (min ((n * 3) div 5) 28);
             per_artist = max 2 (target_total div max 1 (int (length user_artist_ids)))
         in foldl (\<lambda>bs aid. case sp_artist_top_tracks sp aid of
                               None \<Rightarrow> bs
                             | Some ts \<Rightarrow> take_top per_artist ts 0 bs)
              bs (take 5 user_artist_ids)))"

text \<open>\<^verbatim>\<open>" ".join(xs)\<close>.\<close>

fun join_space :: "string list \<Rightarrow> string" where
  "join_space [] = []"
| "join_space [x] = x"
| "join_space (x # y # ys) = x @ '' '' @ join_space (y # ys)"

definition search_fallback :: "spotify \<Rightarrow> params \<Rightarrow> string list \<Rightarrow> pool \<Rightarrow> pool" where
  "search_fallback sp ps candidates bs =
     (let query_bits = (if p_keywords ps \<noteq> [] then p_keywords ps
                        else if candidates \<noteq> [] then candidates else [''best'', ''mix'']);
          q = join_space (take 3 query_bits)
      in (case sp_search_tracks sp q 50 of
            None \<Rightarrow> bs
          | Some items \<Rightarrow> foldl add_uri bs items))"

text \<open>
  \<^verbatim>\<open>random.shuffle\<close>: for \<open>i\<close> from the last index down to 1, exchange the entries at \<open>i\<close>
  and at a drawn index below \<open>i + 1\<close>.
\<close>

fun shuffle_loop :: "(nat \<Rightarrow> nat) \<Rightarrow> nat \<Rightarrow> 'a list \<Rightarrow> 'a list" where
  "shuffle_loop draw 0 xs = xs"
| "shuffle_loop draw (Suc i) xs =
     (let k = draw (Suc i) mod (Suc (Suc i))
      in shuffle_loop draw i (xs[Suc i := xs ! k, k := xs ! Suc i]))"

definition shuffle :: "(nat \<Rightarrow> nat) \<Rightarrow> 'a list \<Rightarrow> 'a list" where
  "shuffle draw xs = shuffle_loop draw (length xs - 1) xs"

text \<open>
  The block under \<^verbatim>\<open>if len(bag) < n\<close>: the search fallback, the filter and its two
  relaxations. \<^verbatim>\<open>filtered\<close> is bound nowhere else. The products \<^verbatim>\<open>0.6 * n\<close> and
  \<^verbatim>\<open>0.4 * n\<close> are taken exactly, before \<^verbatim>\<open>int\<close> truncates them.
\<close>

definition filter_block :: "spotify \<Rightarrow> params \<Rightarrow> int \<Rightarrow> string list \<Rightarrow> pool \<Rightarrow> exn + string list" where
  "filter_block sp ps n candidates bs =
     (let bag = fst (search_fallback sp ps candidates bs)
      in (case filter_stage0 sp bag ps of
            Inl e \<Rightarrow> Inl e
          | Inr filtered \<Rightarrow>
              (case (if int (length filtered) < int_trunc (6 / 10 * of_int n)
                     then filter_stage1 sp bag ps else Inr filtered) of
                 Inl e \<Rightarrow> Inl e
               | Inr filtered \<Rightarrow>
                   Inr (if int (length filtered) < int_trunc (4 / 10 * of_int n)
                        then filter_stage2 bag else filtered))))"

text \<open>
  \<^verbatim>\<open>recommend_tracks\<close>. The outcome holds the requests handed to the recommendation
  endpoint, the vocabulary cache as the call leaves it, and the returned list or the
  exception that leaves the function. When \<^verbatim>\<open>len(bag) < n\<close> is false, the name \<^verbatim>\<open>filtered\<close>
  is unbound at \<^verbatim>\<open>random.shuffle(filtered)\<close>.
\<close>

record outcome =
  out_requests :: "rec_request list"
  out_cache :: "string list option"
  out_result :: "exn + string list"

definition recommend_tracks ::
  "spotify \<Rightarrow> rng \<Rightarrow> string list option \<Rightarrow> params \<Rightarrow> int \<Rightarrow> outcome" where
  "recommend_tracks sp g cache ps n =
     (let user_artist_ids = p_user_artist_ids ps;
          raw_genres = py_or (p_user_genres ps) (py_or (p_genre_candidates ps)
                         (py_or (p_genres ps) (PList [])));
          (candidates, cache) = normalize_genre_list sp cache raw_genres
      in (case tempo_int (p_tempo_bpm ps) of
            Inl e \<Rightarrow> \<lparr> out_requests = [], out_cache = cache, out_result = Inl e \<rparr>
          | Inr tempo \<Rightarrow>
             (let tempo = max 40 (min 220 tempo)
              in (case build_seeds sp (set_first g) cache user_artist_ids candidates of
                    Inl e \<Rightarrow> \<lparr> out_requests = [], out_cache = cache, out_result = Inl e \<rparr>
                  | Inr (seed_artists, seed_genres, cache) \<Rightarrow>
                     (let kwargs = full_kwargs sp g ps n tempo seed_artists seed_genres;
                          (sent, bs) = recs_chain sp kwargs seed_artists seed_genres;
                          bs = artist_quota sp user_artist_ids n bs
                      in \<lparr> out_requests = sent, out_cache = cache,
                           out_result =
                             (if int (length (fst bs)) < n
                              then (case filter_block sp ps n candidates bs of
                                      Inl e \<Rightarrow> Inl e
                                    | Inr filtered \<Rightarrow>
                                        Inr (take (nat n) (shuffle (rnd_shuffle g) filtered)))
                              else Inl UnboundLocalError) \<rparr>)))))"

section \<open>The genre hero resolver\<close>

definition CANON :: "(string \<times> string) list" where
  "CANON =
     [(''pop'', ''06HL4z0CvFAxyc27GXpf02''),
      (''hip-hop'', ''3TVXtAsR1Inumwj472S9r4''),
      (''r-n-b'', ''1Xyo4u8uXC1ZmMpatF05PJ''),
      (''edm'', ''7CajNmpbOovFoOoasH2HaY''),
      (''house'', ''1Cs0zKBU1kc0i8ypK3B9h8a''),
      (''dance-pop'', ''66CXWjxzNUsdJxJ2JdwvnR''),
      (''reggaeton'', ''1vyhD5VmyZ7KMfW5gqLgo5''),
      (''dancehall'', ''2wY79sveU1sp5g7SokKOiI''),
      (''ambient'', ''2BTZIqw0ntH9MvilQ3ewNY''),
      (''electronic'', ''4tZwfgrHOc3mvqYlEYSvVi''),
      (''indie-pop'', ''3e7awlrlDSwF3iM0WBjGMp''),
      (''alt-rock'', ''5BvJzeQpmsdsFp4HGUYUEx''),
      (''soul'', ''3fMbdgg4jU18AjLCKBhRSm''),
      (''funk'', ''7M1FPw29m5FbicYzS2xdpi''),
      (''trap'', ''1URnnhqYAYcrqrcwql10ft'')]"

text \<open>
  An artist dictionary holds its keys as options (\<open>None\<close>: the key is missing, and
  subscripting raises \<^verbatim>\<open>KeyError\<close>); \<open>ar_images\<close> lists the \<^verbatim>\<open>"url"\<close> entry of each image.
  \<^verbatim>\<open>_first_image_url\<close>:
\<close>

definition first_image_url :: "artist \<Rightarrow> exn + string option" where
  "first_image_url a =
     (case ar_images a of
        [] \<Rightarrow> Inr None
      | None # _ \<Rightarrow> Inl KeyError
      | Some u # _ \<Rightarrow> Inr (Some u))"

text \<open>
  \<^verbatim>\<open>_safe_artist\<close>: the client's answer, \<open>None\<close> when the call raises (or when the answer is
  one that \<^verbatim>\<open>if a:\<close> takes for false).
\<close>

definition safe_artist :: "spotify \<Rightarrow> string \<Rightarrow> artist option" where
  "safe_artist sp artist_id = sp_artist sp artist_id"

text \<open>
  The two \<^verbatim>\<open>try\<close> blocks of \<^verbatim>\<open>_search_artist_by_genre\<close>. Each loop returns the first artist
  whose first image has a non-empty address; an exception ends the block without a result.
\<close>

fun first_with_image :: "artist list \<Rightarrow> artist option" where
  "first_with_image [] = None"
| "first_with_image (a # as) =
     (case first_image_url a of
        Inl e \<Rightarrow> None
      | Inr (Some u) \<Rightarrow> if u \<noteq> [] then Some a else first_with_image as
      | Inr None \<Rightarrow> first_with_image as)"

fun first_track_artist :: "spotify \<Rightarrow> track list \<Rightarrow> artist option" where
  "first_track_artist sp [] = None"
| "first_track_artist sp (t # ts) =
     (case tr_artist_ids t of
        [] \<Rightarrow> first_track_artist sp ts
      | None # _ \<Rightarrow> None
      | Some aid # _ \<Rightarrow>
          (case safe_artist sp aid of
             None \<Rightarrow> first_track_artist sp ts
           | Some a \<Rightarrow>
               (case first_image_url a of
                  Inl e \<Rightarrow> None
                | Inr (Some u) \<Rightarrow> if u \<noteq> [] then Some a else first_track_artist sp ts
                | Inr None \<Rightarrow> first_track_artist sp ts)))"

definition hero_request :: "string \<Rightarrow> rec_request" where
  "hero_request genre =
     \<lparr> rq_limit = 20, rq_market = Some ''US'',
       rq_target_energy = None, rq_target_valence = None, rq_target_danceability = None,
       rq_target_acousticness = None, rq_target_tempo = None,
       rq_seed_artists = [], rq_seed_genres = [genre], rq_seed_tracks = [] \<rparr>"

definition search_artist_by_genre :: "spotify \<Rightarrow> string \<Rightarrow> artist option" where
  "search_artist_by_genre sp genre =
     (case (case sp_search_artists sp (''genre:\"'' @ genre @ ''\"'') of
              None \<Rightarrow> None
            | Some items \<Rightarrow> first_with_image items) of
        Some a \<Rightarrow> Some a
      | None \<Rightarrow>
          (case sp_recommendations sp (hero_request genre) of
             None \<Rightarrow> None
           | Some tracks \<Rightarrow> first_track_artist sp tracks))"

record hero =
  hero_id :: string
  hero_name :: string
  hero_image :: "string option"
  hero_url :: string

text \<open>
  The dictionary \<^verbatim>\<open>data\<close> that \<^verbatim>\<open>get_genre_hero\<close> builds from an artist; a missing key
  raises \<^verbatim>\<open>KeyError\<close>.
\<close>

definition hero_data :: "artist \<Rightarrow> exn + hero" where
  "hero_data a =
     (case (ar_id a, ar_name a, first_image_url a, ar_url a) of
        (Some i, Some nm, Inr img, Some u) \<Rightarrow>
          Inr \<lparr> hero_id = i, hero_name = nm, hero_image = img, hero_url = u \<rparr>
      | _ \<Rightarrow> Inl KeyError)"

text \<open>The key under which a genre is looked up and stored.\<close>

definition hero_key :: "string \<Rightarrow> string" where
  "hero_key genre = lower (strip genre)"

text \<open>
  \<^verbatim>\<open>get_genre_hero\<close>, with the module's \<^verbatim>\<open>_GENRE_HERO_CACHE\<close> as an argument and as the
  second component of the result. \<open>store\<close> is the common end of the two successful paths.
\<close>

definition store :: "(string \<rightharpoonup> hero) \<Rightarrow> string \<Rightarrow> artist \<Rightarrow> (exn + hero option) \<times> (string \<rightharpoonup> hero)" where
  "store cache g a =
     (case hero_data a of
        Inl e \<Rightarrow> (Inl e, cache)
      | Inr data \<Rightarrow> (Inr (Some data), cache(g \<mapsto> data)))"

definition dynamic_hero ::
  "spotify \<Rightarrow> (string \<rightharpoonup> hero) \<Rightarrow> string \<Rightarrow> (exn + hero option) \<times> (string \<rightharpoonup> hero)" where
  "dynamic_hero sp cache g =
     (case search_artist_by_genre sp g of
        Some a \<Rightarrow> store cache g a
      | None \<Rightarrow> (Inr None, cache))"

definition get_genre_hero ::
  "spotify \<Rightarrow> (string \<rightharpoonup> hero) \<Rightarrow> string \<Rightarrow> (exn + hero option) \<times> (string \<rightharpoonup> hero)" where
  "get_genre_hero sp cache genre =
     (let g = lower (strip genre)
      in if g = [] then (Inr None, cache)
         else (case cache g of
                 Some data \<Rightarrow> (Inr (Some data), cache)
               | None \<Rightarrow>
                   (case map_of CANON g of
                      Some aid \<Rightarrow>
                        (case safe_artist sp aid of
                           Some a \<Rightarrow> store cache g a
                         | None \<Rightarrow> dynamic_hero sp cache g)
                    | None \<Rightarrow> dynamic_hero sp cache g)))"

section \<open>Concrete clients and inputs\<close>

text \<open>A client every call of which raises.\<close>

definition offline_sp :: spotify where
  "offline_sp =
     \<lparr> sp_genre_seeds = None, sp_search_tracks = (\<lambda>q l. None), sp_search_artists = (\<lambda>q. None),
       sp_artist = (\<lambda>a. None), sp_tracks = (\<lambda>ids. None), sp_audio_features = (\<lambda>ids. None),
       sp_recommendations = (\<lambda>r. None), sp_artist_top_tracks = (\<lambda>a. None) \<rparr>"

text \<open>The genre scenario: the service's vocabulary and the two inputs.\<close>

definition scenario_sp :: spotify where
  "scenario_sp = offline_sp\<lparr>sp_genre_seeds := Some [''chillhop'', ''hip-hop'', ''pop'']\<rparr>"

definition scenario_genres :: pyval where
  "scenario_genres = PList [PStr ''lo-fi'', PStr ''Hip Hop!!'']"

definition hyphen_genres :: pyval where
  "hyphen_genres = PList [PStr ''lo-fi'', PStr ''Hip-Hop!!'']"

text \<open>A service whose vocabulary holds none of the normalizer's fallback genres.\<close>

definition jazz_sp :: spotify where
  "jazz_sp = offline_sp\<lparr>sp_genre_seeds := Some [''jazz'']\<rparr>"

text \<open>A \<^verbatim>\<open>params\<close> dictionary without any of the keys, and fixed random draws.\<close>

definition default_params :: params where
  "default_params =
     \<lparr> p_user_artist_ids = [], p_user_genres = PNone, p_genre_candidates = PNone, p_genres = PNone,
       p_energy_range = None, p_valence_range = None, p_danceability_range = None,
       p_acousticness_range = None, p_tempo_bpm = TempoAbsent, p_keywords = [],
       p_instrumental_ok = False, p_vocals_required = None \<rparr>"

definition fixed_rng :: rng where
  "fixed_rng = \<lparr> rnd_energy = 1 / 2, rnd_valence = 1 / 2, rnd_danceability = 1 / 2,
                 rnd_acousticness = 1 / 2, rnd_tempo = 0, rnd_seed_track = 1 / 2,
                 rnd_shuffle = (\<lambda>i. 0), set_first = 0 \<rparr>"

definition low_rng :: rng where
  "low_rng = fixed_rng\<lparr>rnd_tempo := - 8\<rparr>"

definition high_rng :: rng where
  "high_rng = fixed_rng\<lparr>rnd_tempo := 8\<rparr>"

definition mid_rng :: rng where
  "mid_rng = fixed_rng\<lparr>rnd_tempo := 3\<rparr>"

text \<open>A track dictionary with the given identifier.\<close>

definition uri_track :: "string \<Rightarrow> track" where
  "uri_track u = \<lparr> tr_uri = Some u, tr_id = Some (last_segment u), tr_artist_ids = [] \<rparr>"

text \<open>A service whose recommendation endpoint answers every request with two tracks.\<close>

definition full_sp :: spotify where
  "full_sp = offline_sp\<lparr>sp_recommendations :=
      (\<lambda>r. Some [uri_track ''spotify:track:aaa'', uri_track ''spotify:track:bbb''])\<rparr>"

text \<open>
  A service whose recommendation endpoint raises on a request with a tempo target and
  answers any other request.
\<close>

definition picky_sp :: spotify where
  "picky_sp = offline_sp\<lparr>sp_recommendations :=
      (\<lambda>r. if rq_target_tempo r \<noteq> None then None
            else Some [uri_track ''spotify:track:aaa'', uri_track ''spotify:track:aaa'',
                       uri_track ''spotify:track:bbb''])\<rparr>"

text \<open>Four artists, one genre and one keyword, with a search that finds two tracks.\<close>

definition budget_sp :: spotify where
  "budget_sp = offline_sp\<lparr>sp_search_tracks :=
      (\<lambda>q l. Some [uri_track ''spotify:track:kw1'', uri_track ''spotify:track:kw2''])\<rparr>"

definition budget_params :: params where
  "budget_params = default_params\<lparr>p_user_artist_ids := [''a1'', ''a2'', ''a3'', ''a4''],
      p_user_genres := PList [PStr ''pop''], p_keywords := [''sunset'']\<rparr>"

text \<open>Feature dictionaries that hold a tempo only, for three tracks.\<close>

definition tempo_only :: "real \<Rightarrow> features" where
  "tempo_only t =
     \<lparr> f_instrumentalness = None, f_speechiness = None, f_energy = None, f_tempo = Some t,
       f_duration_ms = None \<rparr>"

definition tempo_sp :: spotify where
  "tempo_sp = offline_sp\<lparr>sp_audio_features :=
      (\<lambda>ids. Some (map (\<lambda>i. if i = ''fast'' then Some (tempo_only 175)
                             else if i = ''near'' then Some (tempo_only 165)
                             else if i = ''edge'' then Some (tempo_only 235) else None) ids))\<rparr>"

definition tempo_pool :: "string list" where
  "tempo_pool = [''spotify:track:fast'', ''spotify:track:edge'', ''spotify:track:near'']"

text \<open>
  A track whose identifier spells a block term once lower-cased, with a title, an album
  and features that no test of the filter objects to.
\<close>

definition rain_uri :: string where
  "rain_uri = ''spotify:track:4Rain0Zk3bQ7mWc1XyT9uA''"

definition rain_sp :: spotify where
  "rain_sp = offline_sp\<lparr>
      sp_tracks := (\<lambda>ids. Some (map (\<lambda>i. Some \<lparr> tm_name = Some ''Blue Sky'',
                                                 tm_album = AlbumDict (Some ''Greatest Hits'') \<rparr>) ids)),
      sp_audio_features := (\<lambda>ids. Some (map (\<lambda>i. Some
          \<lparr> f_instrumentalness = Some (1 / 100), f_speechiness = Some (5 / 100),
            f_energy = Some (8 / 10), f_tempo = Some 120, f_duration_ms = Some 200000 \<rparr>) ids))\<rparr>"

text \<open>The canonical artist of the genre \<^verbatim>\<open>pop\<close>, and a service that knows this artist only.\<close>

definition swift :: artist where
  "swift = \<lparr> ar_id = Some ''06HL4z0CvFAxyc27GXpf02'', ar_name = Some ''Taylor Swift'',
             ar_images = [Some ''https://i.scdn.co/image/1''],
             ar_url = Some ''https://open.spotify.com/artist/06HL4z0CvFAxyc27GXpf02'',
             ar_genres = [''pop''] \<rparr>"

definition swift_hero :: hero where
  "swift_hero = \<lparr> hero_id = ''06HL4z0CvFAxyc27GXpf02'', hero_name = ''Taylor Swift'',
                  hero_image = Some ''https://i.scdn.co/image/1'',
                  hero_url = ''https://open.spotify.com/artist/06HL4z0CvFAxyc27GXpf02'' \<rparr>"

definition hero_sp :: spotify where
  "hero_sp = offline_sp\<lparr>sp_artist :=
      (\<lambda>i. if i = ''06HL4z0CvFAxyc27GXpf02'' then Some swift else None)\<rparr>"

section \<open>Properties of the genre normalizer\<close>

lemma fst_normalize_genre_list:
  "fst (normalize_genre_list sp cache genres) = normalize_with (vocabulary_in_effect sp cache) genres"
  by (simp add: normalize_genre_list_def vocabulary_in_effect_def split: prod.split)

lemma scenario_tokens:
  "clean_tokens (genre_tokens scenario_genres) [] {} = [''chillhop'', ''hip'', ''hop'']"
  by code_simp

lemma hyphen_tokens:
  "clean_tokens (genre_tokens hyphen_genres) [] {} = [''chillhop'', ''hip-hop'']"
  by code_simp

lemma scenario_vocab: "vocabulary_in_effect scenario_sp None = [''chillhop'', ''hip-hop'', ''pop'']"
  by (simp add: vocabulary_in_effect_def allowed_genres_def scenario_sp_def offline_sp_def)

lemma default_vocab: "vocabulary_in_effect offline_sp None = DEFAULT_SEED_GENRES"
  by (simp add: vocabulary_in_effect_def allowed_genres_def offline_sp_def DEFAULT_SEED_GENRES_def)

text \<open>
  C4. The input \<^verbatim>\<open>["lo-fi", "Hip Hop!!"]\<close> is split into the tokens \<^verbatim>\<open>lo-fi\<close>, \<^verbatim>\<open>hip\<close> and
  \<^verbatim>\<open>hop\<close>; only the first has a synonym. With a vocabulary that contains \<^verbatim>\<open>chillhop\<close> the
  result is \<^verbatim>\<open>chillhop\<close> followed by those of \<^verbatim>\<open>hip\<close> and \<^verbatim>\<open>hop\<close> that the vocabulary
  contains, and it is never \<^verbatim>\<open>["chillhop", "hip-hop"]\<close>. The hyphenated input
  \<^verbatim>\<open>["lo-fi", "Hip-Hop!!"]\<close> gives \<^verbatim>\<open>["chillhop", "hip-hop"]\<close> when the vocabulary contains
  both.
\<close>

theorem normalize_scenario:
  assumes "''chillhop'' \<in> set (vocabulary_in_effect sp cache)"
  shows "fst (normalize_genre_list sp cache scenario_genres) =
           ''chillhop'' # filter (\<lambda>g. g \<in> set (vocabulary_in_effect sp cache)) [''hip'', ''hop'']
         \<and> fst (normalize_genre_list sp cache scenario_genres) \<noteq> [''chillhop'', ''hip-hop'']
         \<and> (''hip-hop'' \<in> set (vocabulary_in_effect sp cache) \<longrightarrow>
              fst (normalize_genre_list sp cache hyphen_genres) = [''chillhop'', ''hip-hop''])"
  using assms
  by (simp add: fst_normalize_genre_list normalize_with_def scenario_tokens hyphen_tokens)

theorem normalize_scenario_witness:
  "fst (normalize_genre_list scenario_sp None scenario_genres) = [''chillhop'']
   \<and> fst (normalize_genre_list scenario_sp None hyphen_genres) = [''chillhop'', ''hip-hop'']"
  using normalize_scenario [of scenario_sp None]
  by (simp add: scenario_vocab)

theorem normalize_scenario_counterexample:
  "set (vocabulary_in_effect scenario_sp None) = {''chillhop'', ''hip-hop'', ''pop''}
   \<and> fst (normalize_genre_list scenario_sp None (PList [PStr ''lo-fi'', PStr ''Hip Hop!!'']))
         \<noteq> [''chillhop'', ''hip-hop'']"
  by (simp add: fst_normalize_genre_list scenario_vocab normalize_with_def
        scenario_tokens [unfolded scenario_genres_def])

text \<open>
  C6. When the vocabulary in effect contains at least one of the seven fallback genres
  (as the built-in default vocabulary does), the result of the normalization is not
  empty, has at most five entries, all of the vocabulary; and when no input token is in
  the vocabulary, it is the first five of the fallback genres that the vocabulary
  contains. A non-empty vocabulary without any fallback genre can give the empty list.
\<close>

theorem normalize_nonempty:
  assumes "\<exists>g \<in> set fallback_genres. g \<in> set (vocabulary_in_effect sp cache)"
  shows "fst (normalize_genre_list sp cache genres) \<noteq> []
         \<and> length (fst (normalize_genre_list sp cache genres)) \<le> 5
         \<and> set (fst (normalize_genre_list sp cache genres)) \<subseteq> set (vocabulary_in_effect sp cache)
         \<and> (filter (\<lambda>g. g \<in> set (vocabulary_in_effect sp cache))
               (clean_tokens (genre_tokens genres) [] {}) = [] \<longrightarrow>
             fst (normalize_genre_list sp cache genres) =
               take 5 (filter (\<lambda>g. g \<in> set (vocabulary_in_effect sp cache)) fallback_genres))"
proof -
  let ?V = "vocabulary_in_effect sp cache"
  let ?valid = "filter (\<lambda>g. g \<in> set ?V) (clean_tokens (genre_tokens genres) [] {})"
  let ?fb = "filter (\<lambda>g. g \<in> set ?V) fallback_genres"
  have fb: "?fb \<noteq> []"
    using assms by (simp add: filter_empty_conv)
  have eq: "fst (normalize_genre_list sp cache genres) =
              take 5 (if ?valid = [] then take 5 ?fb else ?valid)"
    by (simp add: fst_normalize_genre_list normalize_with_def Let_def)
  have sub: "set (take 5 (if ?valid = [] then take 5 ?fb else ?valid)) \<subseteq> set ?V"
    by (auto dest!: in_set_takeD)
  show ?thesis
    unfolding eq using fb sub by simp
qed

theorem normalize_nonempty_witness:
  "fst (normalize_genre_list offline_sp None (PList [PStr ''polka''])) =
     [''dance-pop'', ''edm'', ''hip-hop'', ''indie-pop'', ''pop'']"
proof -
  have h: "\<exists>g \<in> set fallback_genres. g \<in> set (vocabulary_in_effect offline_sp None)"
    by (simp add: default_vocab DEFAULT_SEED_GENRES_def fallback_genres_def)
  have t: "clean_tokens (genre_tokens (PList [PStr ''polka''])) [] {} = [''polka'']"
    by code_simp
  show ?thesis
    using normalize_nonempty [OF h, of "PList [PStr ''polka'']"]
    by (simp add: t default_vocab DEFAULT_SEED_GENRES_def fallback_genres_def)
qed

theorem normalize_nonempty_counterexample:
  "vocabulary_in_effect jazz_sp None = [''jazz'']
   \<and> fst (normalize_genre_list jazz_sp None (PList [PStr ''rock''])) = []"
proof -
  have v: "vocabulary_in_effect jazz_sp None = [''jazz'']"
    by (simp add: vocabulary_in_effect_def allowed_genres_def jazz_sp_def offline_sp_def)
  have t: "clean_tokens (genre_tokens (PList [PStr ''rock''])) [] {} = [''rock'']"
    by code_simp
  show ?thesis
    by (simp add: v fst_normalize_genre_list normalize_with_def t fallback_genres_def)
qed

section \<open>Properties of the target jitterer\<close>

lemma py_round_close: "\<bar>of_int (py_round y) - y\<bar> \<le> 1 / 2"
proof -
  have "of_int \<lfloor>y\<rfloor> \<le> y" "y < of_int \<lfloor>y\<rfloor> + 1" by linarith+
  then show ?thesis
    by (auto simp: py_round_def Let_def)
qed

lemma py_round_bounds:
  assumes "0 \<le> y" "y \<le> 100"
  shows "0 \<le> py_round y \<and> py_round y \<le> 100"
proof -
  define f where "f = \<lfloor>y\<rfloor>"
  have f0: "0 \<le> f" unfolding f_def using assms by simp
  have f1: "f \<le> 100" unfolding f_def using assms by (simp add: floor_le_iff)
  have pr: "py_round y =
      (if y - of_int f < 1 / 2 then f else if 1 / 2 < y - of_int f then f + 1
       else if even f then f else f + 1)"
    by (simp add: py_round_def Let_def f_def)
  show ?thesis
  proof (cases "f = 100")
    case True
    then have "y - of_int f < 1 / 2" using assms by simp
    then show ?thesis using pr True by simp
  next
    case False
    then have "f + 1 \<le> 100" using f1 by simp
    then show ?thesis using pr f0 f1 by (simp split: if_splits)
  qed
qed

lemma round2_close: "\<bar>round2 x - x\<bar> \<le> 1 / 200"
  using py_round_close [of "x * 100"] by (simp add: round2_def field_simps abs_le_iff)

lemma round2_unit: "0 \<le> x \<Longrightarrow> x \<le> 1 \<Longrightarrow> 0 \<le> round2 x \<and> round2 x \<le> 1"
  using py_round_bounds [of "x * 100"] by (simp add: round2_def)

lemma uniform_between:
  assumes "a \<le> b" "0 \<le> r" "r \<le> 1"
  shows "a \<le> uniform r a b \<and> uniform r a b \<le> b"
proof -
  have "0 \<le> (b - a) * r" using assms by simp
  moreover have "(b - a) * r \<le> (b - a) * 1"
    using assms by (intro mult_left_mono) auto
  ultimately show ?thesis by (simp add: uniform_def)
qed

text \<open>
  C5. For a centre \<open>c\<close> in \<open>[0, 1]\<close>, a spread \<open>s \<ge> 0\<close> and a draw \<open>r\<close> in \<open>[0, 1)\<close>, both
  jitter functions return the two-decimal rounding of the point
  \<open>x = lo + (hi - lo) * r\<close> of the interval from \<open>lo = max 0 (c - s)\<close> to
  \<open>hi = min 1 (c + s)\<close>; the result lies in \<open>[0, 1]\<close> and within 0.005 of \<open>x\<close>. An absent
  centre gives an absent result.
\<close>

theorem jitter_range:
  assumes "0 \<le> c" "c \<le> 1" "0 \<le> s" "0 \<le> r" "r < 1"
  shows "(let lo = max 0 (c - s); hi = min 1 (c + s); x = uniform r lo hi
          in jitter (Some c) s r = Some (round2 x) \<and> j_target (Some c) s r = Some (round2 x)
             \<and> lo \<le> x \<and> x \<le> hi \<and> \<bar>round2 x - x\<bar> \<le> 1 / 200
             \<and> 0 \<le> round2 x \<and> round2 x \<le> 1)
         \<and> jitter None s r = None \<and> j_target None s r = None"
proof -
  define lo where "lo = max 0 (c - s)"
  define hi where "hi = min 1 (c + s)"
  define x where "x = uniform r lo hi"
  have lohi: "lo \<le> hi" "0 \<le> lo" "hi \<le> 1" using assms by (auto simp: lo_def hi_def)
  have u: "lo \<le> x \<and> x \<le> hi"
    unfolding x_def using uniform_between [OF lohi(1) assms(4)] assms(5) by simp
  then have "0 \<le> x" "x \<le> 1" using lohi by linarith+
  then have v: "0 \<le> round2 x \<and> round2 x \<le> 1"
    by (rule round2_unit)
  have j: "jitter (Some c) s r = Some (round2 x)" "j_target (Some c) s r = Some (round2 x)"
    by (simp_all add: jitter_def j_target_def Let_def x_def lo_def hi_def)
  have n: "jitter None s r = None" "j_target None s r = None"
    by (simp_all add: jitter_def j_target_def)
  have "jitter (Some c) s r = Some (round2 x) \<and> j_target (Some c) s r = Some (round2 x)
             \<and> lo \<le> x \<and> x \<le> hi \<and> \<bar>round2 x - x\<bar> \<le> 1 / 200
             \<and> 0 \<le> round2 x \<and> round2 x \<le> 1"
    using j u v round2_close [of x] by blast
  then show ?thesis
    unfolding Let_def x_def lo_def hi_def using n by blast
qed

theorem jitter_range_witness:
  "j_target (Some (1 / 2)) j_default_spread (1 / 2) = Some (1 / 2)
   \<and> 0 \<le> j_default_spread \<and> j_target None j_default_spread (1 / 2) = None"
proof -
  have s: "0 \<le> j_default_spread" by (simp add: j_default_spread_def)
  have a: "j_target (Some (1 / 2)) j_default_spread (1 / 2) = Some (1 / 2)"
    by code_simp
  show ?thesis
    using jitter_range [of "1 / 2" j_default_spread "1 / 2", OF _ _ s] a s by simp
qed

text \<open>
  Against the interval with upper end \<open>min 1 (c - s)\<close>: centre 0.5, spread 0.12 and the
  draw 0.5 give 0.5, above 0.38. A negative spread gives a result outside \<open>[0, 1]\<close>, and
  the rounding can leave the sampling interval (0.43 below its lower end 0.434).
\<close>

theorem jitter_range_counterexample:
  "j_target (Some (1 / 2)) j_default_spread (1 / 2) = Some (1 / 2)
   \<and> \<not> ((1 / 2 :: real) \<le> min 1 (1 / 2 - j_default_spread))
   \<and> jitter (Some (1 / 2)) (- 2) 0 = Some (5 / 2)
   \<and> j_target (Some (554 / 1000)) j_default_spread 0 = Some (43 / 100)
   \<and> (43 / 100 :: real) < max 0 (554 / 1000 - j_default_spread)"
proof -
  have "j_target (Some (1 / 2)) j_default_spread (1 / 2) = Some (1 / 2)" by code_simp
  moreover have "jitter (Some (1 / 2)) (- 2) 0 = Some (5 / 2)" by code_simp
  moreover have "j_target (Some (554 / 1000)) j_default_spread 0 = Some (43 / 100)" by code_simp
  ultimately show ?thesis by (simp add: j_default_spread_def)
qed


section \<open>Properties of the content filter\<close>

lemma tempo_filter_int:
  assumes "\<not> feature_excluded vr None f" "f_tempo f = Some tempo"
  shows "feature_excluded vr (tempo_window (TempoInt t)) f \<longleftrightarrow>
           tempo < max 40 (of_int t - 20) - 8 \<or> min 220 (of_int t + 20) + 8 < tempo"
  using assms by (auto simp: feature_excluded_def tempo_window_def Let_def split: if_splits)

lemma tempo_filter_float:
  assumes "\<not> feature_excluded vr None f" "f_tempo f = Some tempo"
  shows "feature_excluded vr (tempo_window (TempoFloat x)) f \<longleftrightarrow>
           tempo < max 40 (x - 20) - 8 \<or> min 220 (x + 20) + 8 < tempo"
  using assms by (auto simp: feature_excluded_def tempo_window_def Let_def split: if_splits)

text \<open>
  The loops of the filter entry by entry: the mask keeps its length, the feature loop
  raises exactly when it has more rows than the mask has entries, and it clears the entry
  of a row exactly when the row's tests exclude it.
\<close>

lemma title_loop_length: "length (title_loop i ts m) = length m"
  by (induction ts arbitrary: i m) (auto split: sum.splits bool.splits)

lemma feature_loop_Inr:
  "feature_loop vr win i fs m = Inr r \<Longrightarrow> fs = [] \<or> i + length fs \<le> length m"
proof (induction fs arbitrary: i m)
  case Nil
  then show ?case by simp
next
  case (Cons f fs)
  have li: "i < length m" using Cons.prems by (auto split: if_splits)
  define m' where "m' = (if \<not> m ! i then m else case f of None \<Rightarrow> m
       | Some ft \<Rightarrow> if feature_excluded vr win ft then m[i := False] else m)"
  have e: "feature_loop vr win i (f # fs) m = feature_loop vr win (Suc i) fs m'"
    using li by (simp add: m'_def split: option.split)
  have len: "length m' = length m" by (simp add: m'_def split: option.split)
  from Cons.IH [of "Suc i" m'] Cons.prems e have "fs = [] \<or> Suc i + length fs \<le> length m'"
    by simp
  then show ?case using li len by auto
qed

lemma feature_loop_ok:
  assumes "i + length fs \<le> length m"
  shows "\<exists>r. feature_loop vr win i fs m = Inr r \<and> length r = length m
       \<and> (\<forall>j < length m. r ! j =
             (m ! j \<and> (i \<le> j \<and> j < i + length fs \<longrightarrow>
                (case fs ! (j - i) of None \<Rightarrow> True | Some f \<Rightarrow> \<not> feature_excluded vr win f))))"
  using assms
proof (induction fs arbitrary: i m)
  case Nil
  then show ?case by auto
next
  case (Cons f fs)
  have li: "i < length m" using Cons.prems by simp
  define m' where "m' = (if \<not> m ! i then m else case f of None \<Rightarrow> m
       | Some ft \<Rightarrow> if feature_excluded vr win ft then m[i := False] else m)"
  have e: "feature_loop vr win i (f # fs) m = feature_loop vr win (Suc i) fs m'"
    using li by (simp add: m'_def split: option.split)
  have len: "length m' = length m" by (simp add: m'_def split: option.split)
  have here: "m' ! i = (m ! i \<and> (case f of None \<Rightarrow> True | Some ft \<Rightarrow> \<not> feature_excluded vr win ft))"
    using li by (simp add: m'_def split: option.split)
  have other: "j \<noteq> i \<Longrightarrow> m' ! j = m ! j" for j
    by (simp add: m'_def split: option.split)
  have "Suc i + length fs \<le> length m'" using Cons.prems len by simp
  from Cons.IH [OF this] obtain r where r: "feature_loop vr win (Suc i) fs m' = Inr r"
    and lr: "length r = length m'"
    and rj: "\<forall>j < length m'. r ! j =
             (m' ! j \<and> (Suc i \<le> j \<and> j < Suc i + length fs \<longrightarrow>
                (case fs ! (j - Suc i) of None \<Rightarrow> True | Some f \<Rightarrow> \<not> feature_excluded vr win f)))"
    by blast
  have "\<forall>j < length m. r ! j =
             (m ! j \<and> (i \<le> j \<and> j < i + length (f # fs) \<longrightarrow>
                (case (f # fs) ! (j - i) of None \<Rightarrow> True | Some f \<Rightarrow> \<not> feature_excluded vr win f)))"
  proof (intro allI impI)
    fix j assume j: "j < length m"
    show "r ! j =
             (m ! j \<and> (i \<le> j \<and> j < i + length (f # fs) \<longrightarrow>
                (case (f # fs) ! (j - i) of None \<Rightarrow> True | Some f \<Rightarrow> \<not> feature_excluded vr win f)))"
    proof (cases "j = i")
      case True
      then show ?thesis using rj j len here by simp
    next
      case False
      then have "(f # fs) ! (j - i) = fs ! (j - Suc i)" if "i \<le> j"
        using that by (simp add: nth_Cons')
      then show ?thesis using rj j len other [OF False] False by auto
    qed
  qed
  then show ?case using e r lr len by simp
qed

lemma masked_mem:
  assumes "distinct uris" "length r = length uris" "i < length uris"
  shows "uris ! i \<in> set (map fst (filter snd (zip uris r))) \<longleftrightarrow> r ! i"
proof
  assume "uris ! i \<in> set (map fst (filter snd (zip uris r)))"
  then have "(uris ! i, True) \<in> set (zip uris r)" by auto
  then obtain j where j: "j < length uris" "uris ! j = uris ! i" "r ! j"
    by (auto simp: set_zip)
  then have "j = i" using assms by (simp add: nth_eq_iff_index_eq)
  then show "r ! i" using j by simp
next
  assume "r ! i"
  then have "(uris ! i, True) \<in> set (zip uris r)"
    using assms by (auto simp: set_zip intro!: exI [of _ i])
  then show "uris ! i \<in> set (map fst (filter snd (zip uris r)))" by force
qed

text \<open>
  Whether the filter keeps the candidate at position \<open>i\<close>, for two settings of the tempo
  target: the title and album loop gives the same answer \<open>b\<close> in both, and the feature
  tests are those of \<open>feature_excluded\<close> on the candidate's own features.
\<close>

lemma filter_kept:
  assumes "distinct uris" "i < length uris"
    and "sp_audio_features sp (map last_segment uris) = Some feats"
    and "i < length feats" "feats ! i = Some f"
    and "audio_feature_filter sp uris (ps\<lparr>p_tempo_bpm := tf0\<rparr>) = Inr kept0"
  shows "\<exists>kept b. audio_feature_filter sp uris (ps\<lparr>p_tempo_bpm := tf\<rparr>) = Inr kept
           \<and> (uris ! i \<in> set kept \<longleftrightarrow>
                 b \<and> \<not> feature_excluded
                        (case p_vocals_required ps of None \<Rightarrow> \<not> p_instrumental_ok ps | Some v \<Rightarrow> v)
                        (tempo_window tf) f)
           \<and> (uris ! i \<in> set kept0 \<longleftrightarrow>
                 b \<and> \<not> feature_excluded
                        (case p_vocals_required ps of None \<Rightarrow> \<not> p_instrumental_ok ps | Some v \<Rightarrow> v)
                        (tempo_window tf0) f)"
proof -
  have ne: "uris \<noteq> []" using assms(2) by auto
  define km where "km = title_loop 0 (case sp_tracks sp (map last_segment uris) of None \<Rightarrow> [] | Some m \<Rightarrow> m)
                          (replicate (length uris) True)"
  define vr where "vr = (case p_vocals_required ps of None \<Rightarrow> \<not> p_instrumental_ok ps | Some v \<Rightarrow> v)"
  have lk: "length km = length uris" by (simp add: km_def title_loop_length)
  have flt: "audio_feature_filter sp uris (ps\<lparr>p_tempo_bpm := x\<rparr>) =
      (case feature_loop vr (tempo_window x) 0 feats km of Inl e \<Rightarrow> Inl e
       | Inr m \<Rightarrow> Inr (map fst (filter snd (zip uris m))))" for x
    using ne assms(3) by (simp add: audio_feature_filter_def Let_def km_def vr_def)
  from assms(6) flt [of tf0] obtain r0 where r0: "feature_loop vr (tempo_window tf0) 0 feats km = Inr r0"
    by (auto split: sum.splits)
  have "feats \<noteq> []" using assms(4) by auto
  with feature_loop_Inr [OF r0] have lf: "0 + length feats \<le> length km" by simp
  have char: "\<exists>r. feature_loop vr (tempo_window x) 0 feats km = Inr r \<and> length r = length uris
                 \<and> r ! i = (km ! i \<and> \<not> feature_excluded vr (tempo_window x) f)" for x
  proof -
    from feature_loop_ok [OF lf, of vr "tempo_window x"] obtain r
      where r: "feature_loop vr (tempo_window x) 0 feats km = Inr r" "length r = length km"
        and rj: "\<forall>j < length km. r ! j =
             (km ! j \<and> (0 \<le> j \<and> j < 0 + length feats \<longrightarrow>
                (case feats ! (j - 0) of None \<Rightarrow> True | Some f \<Rightarrow> \<not> feature_excluded vr (tempo_window x) f)))"
      by blast
    have "r ! i = (km ! i \<and> \<not> feature_excluded vr (tempo_window x) f)"
      using rj assms(2,4,5) lk by simp
    then show ?thesis using r lk by simp
  qed
  from char [of tf] obtain r where r: "feature_loop vr (tempo_window tf) 0 feats km = Inr r"
      "length r = length uris" "r ! i = (km ! i \<and> \<not> feature_excluded vr (tempo_window tf) f)"
    by blast
  from char [of tf0] r0 have r0': "length r0 = length uris"
      "r0 ! i = (km ! i \<and> \<not> feature_excluded vr (tempo_window tf0) f)"
    by auto
  have k: "audio_feature_filter sp uris (ps\<lparr>p_tempo_bpm := tf\<rparr>) = Inr (map fst (filter snd (zip uris r)))"
    using flt [of tf] r(1) by simp
  have k0: "kept0 = map fst (filter snd (zip uris r0))"
    using flt [of tf0] r0 assms(6) by simp
  have m: "uris ! i \<in> set (map fst (filter snd (zip uris r))) \<longleftrightarrow> r ! i"
    using masked_mem [OF assms(1) r(2) assms(2)] .
  have m0: "uris ! i \<in> set kept0 \<longleftrightarrow> r0 ! i"
    unfolding k0 using masked_mem [OF assms(1) r0'(1) assms(2)] .
  show ?thesis
    using k m m0 r(3) r0'(2) unfolding vr_def by blast
qed

text \<open>
  C7. Take a pool of distinct identifiers and a candidate in it whose features carry a
  tempo, and which the filter keeps when no tempo target is set (so that neither the
  title and album heuristic nor another feature test drops it). With the tempo target
  \<open>t\<close> the filter drops this candidate exactly when its tempo is below
  \<open>max 40 (t - 20) - 8\<close> or above \<open>min 220 (t + 20) + 8\<close>. For targets from 60 to 200
  this is the window of 28 BPM on both sides of the target. With target 140 the filter
  drops the tracks at 175 and 235 BPM and keeps the track at 165 BPM.
\<close>

theorem tempo_filter:
  assumes "distinct uris" "i < length uris"
    and "sp_audio_features sp (map last_segment uris) = Some feats"
    and "i < length feats" "feats ! i = Some f" "f_tempo f = Some tempo"
    and "audio_feature_filter sp uris (ps\<lparr>p_tempo_bpm := TempoAbsent\<rparr>) = Inr kept0"
    and "uris ! i \<in> set kept0"
  shows "(\<exists>kept. audio_feature_filter sp uris (ps\<lparr>p_tempo_bpm := TempoInt t\<rparr>) = Inr kept
            \<and> (uris ! i \<notin> set kept \<longleftrightarrow>
                  tempo < max 40 (of_int t - 20) - 8 \<or> min 220 (of_int t + 20) + 8 < tempo)
            \<and> (60 \<le> t \<and> t \<le> 200 \<longrightarrow>
                  (uris ! i \<notin> set kept \<longleftrightarrow> tempo < of_int t - 28 \<or> of_int t + 28 < tempo)))
       \<and> (\<exists>kept. audio_feature_filter sp uris (ps\<lparr>p_tempo_bpm := TempoFloat x\<rparr>) = Inr kept
            \<and> (uris ! i \<notin> set kept \<longleftrightarrow>
                  tempo < max 40 (x - 20) - 8 \<or> min 220 (x + 20) + 8 < tempo))
       \<and> audio_feature_filter tempo_sp tempo_pool (default_params\<lparr>p_tempo_bpm := TempoInt 140\<rparr>) =
            Inr [''spotify:track:near'']"
proof -
  define vr where "vr = (case p_vocals_required ps of None \<Rightarrow> \<not> p_instrumental_ok ps | Some v \<Rightarrow> v)"
  have base: "\<exists>kept. audio_feature_filter sp uris (ps\<lparr>p_tempo_bpm := tf\<rparr>) = Inr kept
           \<and> (uris ! i \<notin> set kept \<longleftrightarrow> feature_excluded vr (tempo_window tf) f)
           \<and> \<not> feature_excluded vr None f" for tf
  proof -
    from filter_kept [OF assms(1-5) assms(7), of tf] obtain kept b
      where k: "audio_feature_filter sp uris (ps\<lparr>p_tempo_bpm := tf\<rparr>) = Inr kept"
        and a: "uris ! i \<in> set kept \<longleftrightarrow> b \<and> \<not> feature_excluded vr (tempo_window tf) f"
        and a0: "uris ! i \<in> set kept0 \<longleftrightarrow> b \<and> \<not> feature_excluded vr (tempo_window TempoAbsent) f"
      unfolding vr_def by blast
    from a0 assms(8) have b: b and n: "\<not> feature_excluded vr None f"
      by (simp_all add: tempo_window_def)
    from a b have "uris ! i \<notin> set kept \<longleftrightarrow> feature_excluded vr (tempo_window tf) f" by simp
    with k n show ?thesis by blast
  qed
  from base [of "TempoInt t"] obtain k1
    where k1: "audio_feature_filter sp uris (ps\<lparr>p_tempo_bpm := TempoInt t\<rparr>) = Inr k1"
      and e1: "uris ! i \<notin> set k1 \<longleftrightarrow> feature_excluded vr (tempo_window (TempoInt t)) f"
      and n: "\<not> feature_excluded vr None f"
    by blast
  from base [of "TempoFloat x"] obtain k2
    where k2: "audio_feature_filter sp uris (ps\<lparr>p_tempo_bpm := TempoFloat x\<rparr>) = Inr k2"
      and e2: "uris ! i \<notin> set k2 \<longleftrightarrow> feature_excluded vr (tempo_window (TempoFloat x)) f"
    by blast
  have w1: "uris ! i \<notin> set k1 \<longleftrightarrow>
              tempo < max 40 (of_int t - 20) - 8 \<or> min 220 (of_int t + 20) + 8 < tempo"
    unfolding e1 using n assms(6) by (rule tempo_filter_int)
  have w1': "60 \<le> t \<and> t \<le> 200 \<longrightarrow>
                  (uris ! i \<notin> set k1 \<longleftrightarrow> tempo < of_int t - 28 \<or> of_int t + 28 < tempo)"
    unfolding w1 by auto
  have w2: "uris ! i \<notin> set k2 \<longleftrightarrow>
              tempo < max 40 (x - 20) - 8 \<or> min 220 (x + 20) + 8 < tempo"
    unfolding e2 using n assms(6) by (rule tempo_filter_float)
  have c: "audio_feature_filter tempo_sp tempo_pool (default_params\<lparr>p_tempo_bpm := TempoInt 140\<rparr>) =
            Inr [''spotify:track:near'']"
    by code_simp
  have p1: "\<exists>kept. audio_feature_filter sp uris (ps\<lparr>p_tempo_bpm := TempoInt t\<rparr>) = Inr kept
            \<and> (uris ! i \<notin> set kept \<longleftrightarrow>
                  tempo < max 40 (of_int t - 20) - 8 \<or> min 220 (of_int t + 20) + 8 < tempo)
            \<and> (60 \<le> t \<and> t \<le> 200 \<longrightarrow>
                  (uris ! i \<notin> set kept \<longleftrightarrow> tempo < of_int t - 28 \<or> of_int t + 28 < tempo))"
    by (rule exI [of _ k1]) (rule conjI [OF k1 conjI [OF w1 w1']])
  have p2: "\<exists>kept. audio_feature_filter sp uris (ps\<lparr>p_tempo_bpm := TempoFloat x\<rparr>) = Inr kept
            \<and> (uris ! i \<notin> set kept \<longleftrightarrow>
                  tempo < max 40 (x - 20) - 8 \<or> min 220 (x + 20) + 8 < tempo)"
    by (rule exI [of _ k2]) (rule conjI [OF k2 w2])
  show ?thesis by (rule conjI [OF p1 conjI [OF p2 c]])
qed

theorem tempo_filter_witness:
  "distinct tempo_pool
   \<and> sp_audio_features tempo_sp (map last_segment tempo_pool) =
       Some [Some (tempo_only 175), Some (tempo_only 235), Some (tempo_only 165)]
   \<and> audio_feature_filter tempo_sp tempo_pool (default_params\<lparr>p_tempo_bpm := TempoAbsent\<rparr>) =
       Inr tempo_pool
   \<and> audio_feature_filter tempo_sp tempo_pool (default_params\<lparr>p_tempo_bpm := TempoInt 140\<rparr>) =
       Inr [''spotify:track:near'']
   \<and> audio_feature_filter tempo_sp tempo_pool (default_params\<lparr>p_tempo_bpm := TempoInt 200\<rparr>) =
       Inr [''spotify:track:fast'']"
proof -
  have d: "distinct tempo_pool" by (simp add: tempo_pool_def)
  have l: "(2::nat) < length tempo_pool" by (simp add: tempo_pool_def)
  have fe: "sp_audio_features tempo_sp (map last_segment tempo_pool) =
       Some [Some (tempo_only 175), Some (tempo_only 235), Some (tempo_only 165)]"
    by code_simp
  have lf: "(2::nat) < length [Some (tempo_only 175), Some (tempo_only 235), Some (tempo_only 165)]"
    by simp
  have fi: "[Some (tempo_only 175), Some (tempo_only 235), Some (tempo_only 165)] ! 2 =
              Some (tempo_only 165)"
    by simp
  have ft: "f_tempo (tempo_only 165) = Some 165" by (simp add: tempo_only_def)
  have k0: "audio_feature_filter tempo_sp tempo_pool (default_params\<lparr>p_tempo_bpm := TempoAbsent\<rparr>) =
       Inr tempo_pool"
    by code_simp
  have m: "tempo_pool ! 2 \<in> set tempo_pool" by (simp add: tempo_pool_def)
  have c1: "audio_feature_filter tempo_sp tempo_pool (default_params\<lparr>p_tempo_bpm := TempoInt 140\<rparr>) =
       Inr [''spotify:track:near'']"
    by code_simp
  have c2: "audio_feature_filter tempo_sp tempo_pool (default_params\<lparr>p_tempo_bpm := TempoInt 200\<rparr>) =
       Inr [''spotify:track:fast'']"
    by code_simp
  note w = tempo_filter [OF d l fe lf fi ft k0 m, of 140 140]
  from w d fe k0 c1 c2 show ?thesis by (intro conjI)
qed

text \<open>
  Against the window of 28 BPM for every target: with target 210 a track at 235 BPM,
  which is within 28 BPM of the target, is dropped, since the upper end is
  \<open>min 220 230 + 8 = 228\<close>.
\<close>

theorem tempo_filter_counterexample:
  "audio_feature_filter tempo_sp [''spotify:track:edge'']
      (default_params\<lparr>p_tempo_bpm := TempoInt 210\<rparr>) = Inr []
   \<and> sp_audio_features tempo_sp [''edge''] = Some [Some (tempo_only 235)]
   \<and> \<not> ((235::real) < 210 - 28 \<or> 210 + 28 < (235::real))"
proof -
  have "audio_feature_filter tempo_sp [''spotify:track:edge'']
      (default_params\<lparr>p_tempo_bpm := TempoInt 210\<rparr>) = Inr []"
    by code_simp
  moreover have "sp_audio_features tempo_sp [''edge''] = Some [Some (tempo_only 235)]"
    by (simp add: tempo_sp_def)
  ultimately show ?thesis by simp
qed

text \<open>
  The first relaxation widens: what the first pass keeps, the pass without the
  instrumentalness test keeps too (for the same answers of the service).
\<close>

lemma feature_excluded_relaxed:
  "feature_excluded False win f \<Longrightarrow> feature_excluded vr win f"
  by (auto simp: feature_excluded_def Let_def split: if_splits)

lemma feature_loop_widens:
  assumes "length m0 = length m1" "\<forall>i < length m0. m0 ! i \<longrightarrow> m1 ! i"
    and "feature_loop vr win i fs m0 = Inr r0"
  shows "\<exists>r1. feature_loop False win i fs m1 = Inr r1 \<and> length r0 = length r1
              \<and> (\<forall>i < length r0. r0 ! i \<longrightarrow> r1 ! i)"
  using assms
proof (induction fs arbitrary: i m0 m1)
  case Nil
  then show ?case by simp
next
  case (Cons f fs)
  have li: "i < length m0" using Cons.prems(3) by (auto split: if_splits)
  define n0 where "n0 = (if \<not> m0 ! i then m0 else case f of None \<Rightarrow> m0
       | Some ft \<Rightarrow> if feature_excluded vr win ft then m0[i := False] else m0)"
  define n1 where "n1 = (if \<not> m1 ! i then m1 else case f of None \<Rightarrow> m1
       | Some ft \<Rightarrow> if feature_excluded False win ft then m1[i := False] else m1)"
  have e0: "feature_loop vr win i (f # fs) m0 = feature_loop vr win (Suc i) fs n0"
    using li by (simp add: n0_def split: option.split)
  have e1: "feature_loop False win i (f # fs) m1 = feature_loop False win (Suc i) fs n1"
    using li Cons.prems(1) by (simp add: n1_def split: option.split)
  have len: "length n0 = length n1"
    using Cons.prems(1) by (simp add: n0_def n1_def split: option.split)
  have le: "\<forall>j < length n0. n0 ! j \<longrightarrow> n1 ! j"
    using Cons.prems(1,2) li feature_excluded_relaxed [of win _ vr]
    by (auto simp: n0_def n1_def nth_list_update split: option.split if_splits)
  from Cons.IH [OF len le] Cons.prems(3) show ?case
    unfolding e0 e1 by simp
qed

lemma masked_subset:
  assumes "length m0 = length m1" "\<forall>i < length m0. m0 ! i \<longrightarrow> m1 ! i"
  shows "set (map fst (filter snd (zip uris m0))) \<subseteq> set (map fst (filter snd (zip uris m1)))"
proof
  fix u assume "u \<in> set (map fst (filter snd (zip uris m0)))"
  then have "(u, True) \<in> set (zip uris m0)" by auto
  then obtain i where i: "i < length uris" "i < length m0" "uris ! i = u" "m0 ! i"
    by (auto simp: set_zip)
  then have "m1 ! i" using assms by simp
  then have "(u, True) \<in> set (zip uris m1)"
    using i assms(1) by (auto simp: set_zip intro!: exI [of _ i])
  then show "u \<in> set (map fst (filter snd (zip uris m1)))" by force
qed

lemma stage1_widens_stage0:
  assumes "filter_stage0 sp bag ps = Inr xs"
  shows "\<exists>ys. filter_stage1 sp bag ps = Inr ys \<and> set xs \<subseteq> set ys"
proof (cases "bag = []")
  case True
  then show ?thesis using assms
    by (simp add: filter_stage0_def filter_stage1_def audio_feature_filter_def)
next
  case False
  define ids where "ids = map last_segment bag"
  define km where "km = title_loop 0 (case sp_tracks sp ids of None \<Rightarrow> [] | Some m \<Rightarrow> m)
                          (replicate (length bag) True)"
  define feats where "feats = (case sp_audio_features sp ids of None \<Rightarrow> [] | Some fs \<Rightarrow> fs)"
  define vr where "vr = (case p_vocals_required ps of None \<Rightarrow> \<not> p_instrumental_ok ps | Some v \<Rightarrow> v)"
  define win where "win = tempo_window (p_tempo_bpm ps)"
  have s0: "filter_stage0 sp bag ps =
      (case feature_loop vr win 0 feats km of Inl e \<Rightarrow> Inl e
       | Inr m \<Rightarrow> Inr (map fst (filter snd (zip bag m))))"
    using False
    by (simp add: filter_stage0_def audio_feature_filter_def Let_def ids_def km_def feats_def
          vr_def win_def)
  have s1: "filter_stage1 sp bag ps =
      (case feature_loop False win 0 feats km of Inl e \<Rightarrow> Inl e
       | Inr m \<Rightarrow> Inr (map fst (filter snd (zip bag m))))"
    using False
    by (simp add: filter_stage1_def audio_feature_filter_def Let_def ids_def km_def feats_def
          win_def)
  from assms s0 obtain r0 where r0: "feature_loop vr win 0 feats km = Inr r0"
      and xs: "xs = map fst (filter snd (zip bag r0))"
    by (auto split: sum.splits)
  from feature_loop_widens [OF _ _ r0, of km] obtain r1
    where r1: "feature_loop False win 0 feats km = Inr r1"
      and len: "length r0 = length r1" and le: "\<forall>i < length r0. r0 ! i \<longrightarrow> r1 ! i"
    by auto
  have "filter_stage1 sp bag ps = Inr (map fst (filter snd (zip bag r1)))"
    using s1 r1 by simp
  moreover have "set xs \<subseteq> set (map fst (filter snd (zip bag r1)))"
    unfolding xs using masked_subset [OF len le] .
  ultimately show ?thesis by blast
qed

text \<open>
  C3. The last resort is not a superset of the relaxed pass. The track \<open>rain_uri\<close> has an
  inoffensive title, album and features, so the first pass and the relaxed pass keep it;
  the last resort hands the identifier itself to \<^verbatim>\<open>_looks_like_sfx\<close>, whose lower-cased text
  contains the block term \<^verbatim>\<open>rain\<close>, and drops it.
\<close>

theorem last_resort_drops_kept_track:
  "filter_stage0 rain_sp [rain_uri] default_params = Inr [rain_uri]
   \<and> filter_stage1 rain_sp [rain_uri] default_params = Inr [rain_uri]
   \<and> filter_stage2 [rain_uri] = []"
  by code_simp

section \<open>Properties of the recommender\<close>

lemma allowed_genres_nonempty: "fst (allowed_genres sp cache) \<noteq> []"
  by (simp add: allowed_genres_def DEFAULT_SEED_GENRES_def
        del: remdups.simps split: option.split list.split)

lemma artist_seed_genres_length: "length (fst (artist_seed_genres sp cache ids limit)) \<le> limit"
  by (simp add: artist_seed_genres_def Let_def split: prod.split)

text \<open>
  Building the seeds never raises: \<^verbatim>\<open>picked\<close> is not empty, since the vocabulary is not.
  The artists are the first three identifiers, and the genres fit into the slots left.
\<close>

lemma build_seeds_ok:
  "\<exists>sg c'. build_seeds sp first cache ids cands = Inr (take 3 ids, sg, c')
           \<and> length sg \<le> 5 - length (take 3 ids)"
proof -
  define sa where "sa = take 3 ids"
  define sg0 where "sg0 = take (5 - length sa) cands"
  define p where "p = (if sa \<noteq> [] \<and> sg0 = []
              then artist_seed_genres sp cache sa (5 - length sa) else (sg0, cache))"
  obtain sg1 c1 where p1: "p = (sg1, c1)" by (cases p)
  have l1: "length sg1 \<le> 5 - length sa"
  proof (cases "sa \<noteq> [] \<and> sg0 = []")
    case True
    then have "sg1 = fst (artist_seed_genres sp cache sa (5 - length sa))"
      using p1 by (simp add: p_def)
    then show ?thesis by (simp add: artist_seed_genres_length)
  next
    case False
    then have "sg1 = sg0" using p1 by (auto simp: p_def)
    then show ?thesis by (simp add: sg0_def)
  qed
  have unf: "build_seeds sp first cache ids cands =
     (if sa = [] \<and> sg1 = []
      then (let (a, cache') = allowed_genres sp c1;
                allowed = (if a \<noteq> [] then a else DEFAULT_SEED_GENRES);
                picked = filter (\<lambda>g. g \<in> set allowed) upbeat_pref;
                picked = (if picked \<noteq> [] then picked else rotate first allowed)
            in (case picked of [] \<Rightarrow> Inl IndexError | g # _ \<Rightarrow> Inr (sa, [g], cache')))
      else Inr (sa, sg1, c1))"
    using p1 unfolding build_seeds_def p_def sg0_def sa_def Let_def by simp
  show ?thesis
  proof (cases "sa = [] \<and> sg1 = []")
    case False
    then show ?thesis using unf l1 by (auto simp: sa_def)
  next
    case True
    obtain a c2 where a: "allowed_genres sp c1 = (a, c2)" by (cases "allowed_genres sp c1")
    have ne: "a \<noteq> []" using allowed_genres_nonempty [of sp c1] a by simp
    define picked where "picked = (if filter (\<lambda>g. g \<in> set a) upbeat_pref \<noteq> []
                                   then filter (\<lambda>g. g \<in> set a) upbeat_pref else rotate first a)"
    have "picked \<noteq> []" using ne by (simp add: picked_def)
    then obtain g gs where pk: "picked = g # gs" by (cases picked) auto
    from True have s0: "sa = []" and g0: "sg1 = []" by simp_all
    have "build_seeds sp first cache ids cands =
            (case picked of [] \<Rightarrow> Inl IndexError | g # _ \<Rightarrow> Inr ([], [g], c2))"
      using unf a ne by (simp add: s0 g0 Let_def picked_def)
    then have "build_seeds sp first cache ids cands = Inr ([], [g], c2)"
      by (simp add: pk)
    then show ?thesis using s0 [unfolded sa_def] by simp
  qed
qed

text \<open>
  The requests of a call: none when \<^verbatim>\<open>int(...)\<close> rejects the tempo, else those of the
  three-call chain for the full request.
\<close>

lemma recommend_tracks_requests:
  assumes "tempo_int (p_tempo_bpm ps) = Inr t"
  shows "\<exists>sg. length sg \<le> 5 - length (take 3 (p_user_artist_ids ps))
           \<and> out_requests (recommend_tracks sp g cache ps n) =
               fst (recs_chain sp
                      (full_kwargs sp g ps n (max 40 (min 220 t)) (take 3 (p_user_artist_ids ps)) sg)
                      (take 3 (p_user_artist_ids ps)) sg)"
proof -
  define raw where "raw = py_or (p_user_genres ps) (py_or (p_genre_candidates ps)
                         (py_or (p_genres ps) (PList [])))"
  obtain cands c0 where n0: "normalize_genre_list sp cache raw = (cands, c0)"
    by (cases "normalize_genre_list sp cache raw")
  obtain sg c1 where b: "build_seeds sp (set_first g) c0 (p_user_artist_ids ps) cands =
        Inr (take 3 (p_user_artist_ids ps), sg, c1)"
      and l: "length sg \<le> 5 - length (take 3 (p_user_artist_ids ps))"
    using build_seeds_ok [of sp "set_first g" c0 "p_user_artist_ids ps" cands] by blast
  have "out_requests (recommend_tracks sp g cache ps n) =
               fst (recs_chain sp
                      (full_kwargs sp g ps n (max 40 (min 220 t)) (take 3 (p_user_artist_ids ps)) sg)
                      (take 3 (p_user_artist_ids ps)) sg)"
    using assms n0 b unfolding recommend_tracks_def raw_def Let_def
    by (simp split: prod.split)
  with l show ?thesis by blast
qed

lemma recommend_tracks_no_requests:
  assumes "tempo_int (p_tempo_bpm ps) = Inl e"
  shows "out_requests (recommend_tracks sp g cache ps n) = []"
  using assms unfolding recommend_tracks_def Let_def by (simp split: prod.split)

lemma recs_chain_sent:
  "fst (recs_chain sp k sa sg) =
     k # (if sp_recommendations sp k = None
          then slim_kwargs k sa sg #
               (if sp_recommendations sp (slim_kwargs k sa sg) = None \<and> sg \<noteq> []
                then [genres_only_kwargs k sg] else [])
          else [])"
  by (simp add: recs_chain_def add_from_recs_def Let_def split: option.split prod.split)

lemma seeds_artists_id: "length sa \<le> 5 \<Longrightarrow> seeds_artists sa = sa"
  by (simp add: seeds_artists_def)

lemma seeds_genres_id: "length sg \<le> 5 - length sa \<Longrightarrow> seeds_genres sa sg = sg"
  by (auto simp: seeds_genres_def)

lemma full_seed_budget:
  assumes "length sa \<le> 3" "length sg \<le> 5 - length sa"
  shows "rq_seed_artists (full_kwargs sp g ps n t sa sg) = sa
       \<and> rq_seed_genres (full_kwargs sp g ps n t sa sg) = sg
       \<and> length (rq_seed_tracks (full_kwargs sp g ps n t sa sg)) \<le> 1
       \<and> (rq_seed_tracks (full_kwargs sp g ps n t sa sg) \<noteq> [] \<longrightarrow> length sa + length sg < 5)"
  using assms
  by (simp add: full_kwargs_def Let_def seeds_artists_id seeds_genres_id)

lemma slim_seeds:
  assumes "length sa \<le> 3" "length sg \<le> 5 - length sa"
  shows "rq_seed_artists (slim_kwargs k sa sg) = sa \<and> rq_seed_genres (slim_kwargs k sa sg) = sg
         \<and> rq_seed_tracks (slim_kwargs k sa sg) = []"
  using assms by (simp add: slim_kwargs_def seeds_artists_id seeds_genres_id)

lemma third_seeds:
  "rq_seed_artists (genres_only_kwargs k sg) = [] \<and> rq_seed_genres (genres_only_kwargs k sg) = sg
   \<and> rq_seed_tracks (genres_only_kwargs k sg) = []"
  by (simp add: genres_only_kwargs_def)

text \<open>
  C1. With a recommendation endpoint that answers the first request with two tracks and
  a requested count of 2, the pool is not shorter than the count, the block that binds
  \<^verbatim>\<open>filtered\<close> is skipped, and \<^verbatim>\<open>random.shuffle(filtered)\<close> raises \<^verbatim>\<open>UnboundLocalError\<close>,
  whatever the random draws.
\<close>

theorem recommend_tracks_unbound:
  "out_result (recommend_tracks full_sp g None default_params 2) = Inl UnboundLocalError"
  by code_simp

text \<open>
  C8. Every request that \<^verbatim>\<open>recommend_tracks\<close> hands to the recommendation endpoint holds
  at most five seeds: its artists are the first three artist identifiers (or none, in
  the genres-only request), its genres fit into the slots the artists leave, and it has
  at most one seed track, present only when artists and genres leave a slot. The
  request of the genre hero resolver holds one seed.
\<close>

theorem seed_budget:
  "(\<forall>r \<in> set (out_requests (recommend_tracks sp g cache ps n)).
      length (rq_seed_artists r) + length (rq_seed_genres r) + length (rq_seed_tracks r) \<le> 5
    \<and> (rq_seed_artists r = take 3 (p_user_artist_ids ps) \<or> rq_seed_artists r = [])
    \<and> length (rq_seed_artists r) \<le> 3
    \<and> length (rq_seed_genres r) \<le> 5 - length (take 3 (p_user_artist_ids ps))
    \<and> length (rq_seed_tracks r) \<le> 1
    \<and> (rq_seed_tracks r \<noteq> [] \<longrightarrow> length (rq_seed_artists r) + length (rq_seed_genres r) < 5))
   \<and> length (rq_seed_artists (hero_request genre)) + length (rq_seed_genres (hero_request genre))
       + length (rq_seed_tracks (hero_request genre)) = 1"
proof (cases "tempo_int (p_tempo_bpm ps)")
  case (Inl e)
  then show ?thesis by (simp add: recommend_tracks_no_requests hero_request_def)
next
  case (Inr t)
  define sa where "sa = take 3 (p_user_artist_ids ps)"
  have la: "length sa \<le> 3" by (simp add: sa_def)
  obtain sg where l: "length sg \<le> 5 - length sa"
    and req: "out_requests (recommend_tracks sp g cache ps n) =
               fst (recs_chain sp (full_kwargs sp g ps n (max 40 (min 220 t)) sa sg) sa sg)"
    using recommend_tracks_requests [OF Inr] unfolding sa_def by blast
  define full where "full = full_kwargs sp g ps n (max 40 (min 220 t)) sa sg"
  note fb = full_seed_budget [OF la l, of sp g ps n "max 40 (min 220 t)", folded full_def]
  note sl = slim_seeds [OF la l, of full]
  note th = third_seeds [of full sg]
  have mem: "set (out_requests (recommend_tracks sp g cache ps n)) \<subseteq>
               {full, slim_kwargs full sa sg, genres_only_kwargs full sg}"
    unfolding req recs_chain_sent full_def by auto
  have "\<forall>r \<in> {full, slim_kwargs full sa sg, genres_only_kwargs full sg}.
      length (rq_seed_artists r) + length (rq_seed_genres r) + length (rq_seed_tracks r) \<le> 5
    \<and> (rq_seed_artists r = sa \<or> rq_seed_artists r = [])
    \<and> length (rq_seed_artists r) \<le> 3
    \<and> length (rq_seed_genres r) \<le> 5 - length sa
    \<and> length (rq_seed_tracks r) \<le> 1
    \<and> (rq_seed_tracks r \<noteq> [] \<longrightarrow> length (rq_seed_artists r) + length (rq_seed_genres r) < 5)"
    using fb sl th la l by auto
  moreover have "length (rq_seed_artists (hero_request genre))
       + length (rq_seed_genres (hero_request genre))
       + length (rq_seed_tracks (hero_request genre)) = 1"
    by (simp add: hero_request_def)
  ultimately show ?thesis using mem unfolding sa_def by blast
qed

lemma budget_requests:
  "map (\<lambda>r. (rq_seed_artists r, rq_seed_genres r, rq_seed_tracks r))
     (out_requests (recommend_tracks budget_sp fixed_rng None budget_params 15)) =
   [([''a1'', ''a2'', ''a3''], [''pop''], [''kw1'']),
    ([''a1'', ''a2'', ''a3''], [''pop''], []),
    ([], [''pop''], [])]"
  by code_simp

theorem seed_budget_witness:
  "map (\<lambda>r. (rq_seed_artists r, rq_seed_genres r, rq_seed_tracks r))
     (out_requests (recommend_tracks budget_sp fixed_rng None budget_params 15)) =
   [([''a1'', ''a2'', ''a3''], [''pop''], [''kw1'']),
    ([''a1'', ''a2'', ''a3''], [''pop''], []),
    ([], [''pop''], [])]
   \<and> list_all (\<lambda>r. length (rq_seed_artists r) + length (rq_seed_genres r)
                      + length (rq_seed_tracks r) \<le> 5)
       (out_requests (recommend_tracks budget_sp fixed_rng None budget_params 15))"
  using seed_budget [of budget_sp fixed_rng None budget_params 15] budget_requests
  by (simp add: list_all_iff)

text \<open>
  C10. For a tempo that is an integer, a float (truncated towards zero), a string that
  \<^verbatim>\<open>int\<close> reads, or missing (then 100), the first request is the only one with a tempo
  target, and the target is this tempo clamped to 40..220 plus the integer drawn by
  \<^verbatim>\<open>randint(-8, 8)\<close>: a value from 32 to 228, 32 for a tempo of at most 40 and the draw
  -8, 228 for a tempo of at least 220 and the draw 8.
\<close>

theorem tempo_target_sent:
  assumes "p_tempo_bpm ps = TempoInt v
           \<or> (p_tempo_bpm ps = TempoAbsent \<and> v = 100)
           \<or> (\<exists>x. p_tempo_bpm ps = TempoFloat x \<and> v = (if 0 \<le> x then \<lfloor>x\<rfloor> else \<lceil>x\<rceil>))
           \<or> (\<exists>s. p_tempo_bpm ps = TempoStr s \<and> py_int_str s = Some v)"
  shows "(\<exists>r rest. out_requests (recommend_tracks sp g cache ps n) = r # rest
            \<and> rq_target_tempo r = Some (max 40 (min 220 v) + rnd_tempo g)
            \<and> (\<forall>r' \<in> set rest. rq_target_tempo r' = None))
         \<and> (- 8 \<le> rnd_tempo g \<and> rnd_tempo g \<le> 8 \<longrightarrow>
               32 \<le> max 40 (min 220 v) + rnd_tempo g \<and> max 40 (min 220 v) + rnd_tempo g \<le> 228)
         \<and> (v \<le> 40 \<and> rnd_tempo g = - 8 \<longrightarrow> max 40 (min 220 v) + rnd_tempo g = 32)
         \<and> (220 \<le> v \<and> rnd_tempo g = 8 \<longrightarrow> max 40 (min 220 v) + rnd_tempo g = 228)"
proof -
  have ti: "tempo_int (p_tempo_bpm ps) = Inr v"
    using assms by (auto simp: tempo_int_def int_trunc_def)
  let ?sa = "take 3 (p_user_artist_ids ps)"
  obtain sg where req: "out_requests (recommend_tracks sp g cache ps n) =
               fst (recs_chain sp (full_kwargs sp g ps n (max 40 (min 220 v)) ?sa sg) ?sa sg)"
    using recommend_tracks_requests [OF ti] by blast
  let ?full = "full_kwargs sp g ps n (max 40 (min 220 v)) ?sa sg"
  obtain rest where r: "out_requests (recommend_tracks sp g cache ps n) = ?full # rest"
    and rs: "set rest \<subseteq> {slim_kwargs ?full ?sa sg, genres_only_kwargs ?full sg}"
    unfolding req recs_chain_sent by auto
  have t1: "rq_target_tempo ?full = Some (max 40 (min 220 v) + rnd_tempo g)"
    by (simp add: full_kwargs_def Let_def)
  have t2: "\<forall>r' \<in> set rest. rq_target_tempo r' = None"
    using rs by (auto simp: slim_kwargs_def genres_only_kwargs_def)
  from r t1 t2 show ?thesis by auto
qed

theorem tempo_target_sent_witness:
  "map rq_target_tempo (out_requests (recommend_tracks offline_sp mid_rng None
        (default_params\<lparr>p_tempo_bpm := TempoInt 120\<rparr>) 15)) = [Some 123, None, None]
   \<and> map rq_target_tempo (out_requests (recommend_tracks offline_sp mid_rng None
        default_params 15)) = [Some 103, None, None]
   \<and> map rq_target_tempo (out_requests (recommend_tracks offline_sp mid_rng None
        (default_params\<lparr>p_tempo_bpm := TempoFloat (1287 / 10)\<rparr>) 15)) = [Some 131, None, None]
   \<and> map rq_target_tempo (out_requests (recommend_tracks offline_sp mid_rng None
        (default_params\<lparr>p_tempo_bpm := TempoStr ''96''\<rparr>) 15)) = [Some 99, None, None]
   \<and> map rq_target_tempo (out_requests (recommend_tracks offline_sp low_rng None
        (default_params\<lparr>p_tempo_bpm := TempoInt 40\<rparr>) 15)) = [Some 32, None, None]
   \<and> map rq_target_tempo (out_requests (recommend_tracks offline_sp high_rng None
        (default_params\<lparr>p_tempo_bpm := TempoFloat (2205 / 10)\<rparr>) 15)) = [Some 228, None, None]
   \<and> out_requests (recommend_tracks offline_sp mid_rng None
        (default_params\<lparr>p_tempo_bpm := TempoStr ''fast''\<rparr>) 15) = []"
proof -
  have a: "p_tempo_bpm (default_params\<lparr>p_tempo_bpm := TempoInt 120\<rparr>) = TempoInt 120
           \<or> (p_tempo_bpm (default_params\<lparr>p_tempo_bpm := TempoInt 120\<rparr>) = TempoAbsent \<and> (120::int) = 100)
           \<or> (\<exists>x. p_tempo_bpm (default_params\<lparr>p_tempo_bpm := TempoInt 120\<rparr>) = TempoFloat x
                  \<and> (120::int) = (if 0 \<le> x then \<lfloor>x\<rfloor> else \<lceil>x\<rceil>))
           \<or> (\<exists>s. p_tempo_bpm (default_params\<lparr>p_tempo_bpm := TempoInt 120\<rparr>) = TempoStr s
                  \<and> py_int_str s = Some 120)"
    by simp
  have b1: "map rq_target_tempo (out_requests (recommend_tracks offline_sp mid_rng None
        (default_params\<lparr>p_tempo_bpm := TempoInt 120\<rparr>) 15)) = [Some 123, None, None]"
    by code_simp
  have b2: "map rq_target_tempo (out_requests (recommend_tracks offline_sp mid_rng None
        default_params 15)) = [Some 103, None, None]"
    by code_simp
  have b3: "map rq_target_tempo (out_requests (recommend_tracks offline_sp mid_rng None
        (default_params\<lparr>p_tempo_bpm := TempoFloat (1287 / 10)\<rparr>) 15)) = [Some 131, None, None]"
    by code_simp
  have b4: "map rq_target_tempo (out_requests (recommend_tracks offline_sp mid_rng None
        (default_params\<lparr>p_tempo_bpm := TempoStr ''96''\<rparr>) 15)) = [Some 99, None, None]"
    by code_simp
  have b5: "map rq_target_tempo (out_requests (recommend_tracks offline_sp low_rng None
        (default_params\<lparr>p_tempo_bpm := TempoInt 40\<rparr>) 15)) = [Some 32, None, None]"
    by code_simp
  have b6: "map rq_target_tempo (out_requests (recommend_tracks offline_sp high_rng None
        (default_params\<lparr>p_tempo_bpm := TempoFloat (2205 / 10)\<rparr>) 15)) = [Some 228, None, None]"
    by code_simp
  have b7: "out_requests (recommend_tracks offline_sp mid_rng None
        (default_params\<lparr>p_tempo_bpm := TempoStr ''fast''\<rparr>) 15) = []"
    by code_simp
  note w = tempo_target_sent [OF a, of offline_sp mid_rng None 15]
  from w b1 b2 b3 b4 b5 b6 b7 show ?thesis by (intro conjI)
qed

text \<open>The pool after the chain holds each returned identifier once.\<close>

lemma add_uri_pool:
  assumes "distinct (fst bs)" "set (fst bs) = snd bs"
  shows "distinct (fst (add_uri bs t)) \<and> set (fst (add_uri bs t)) = snd (add_uri bs t)
         \<and> snd (add_uri bs t) = snd bs \<union> {u. u \<noteq> [] \<and> Some u = tr_uri t}"
  using assms by (auto simp: add_uri_def split: option.split)

lemma foldl_add_uri_pool:
  assumes "distinct (fst bs)" "set (fst bs) = snd bs"
  shows "distinct (fst (foldl add_uri bs ts))
         \<and> set (fst (foldl add_uri bs ts)) = snd (foldl add_uri bs ts)
         \<and> snd (foldl add_uri bs ts) = snd bs \<union> {u. u \<noteq> [] \<and> Some u \<in> tr_uri ` set ts}"
  using assms
proof (induction ts arbitrary: bs)
  case Nil
  then show ?case by simp
next
  case (Cons t ts)
  note step = add_uri_pool [OF Cons.prems, of t]
  from step have d: "distinct (fst (add_uri bs t))"
    and s: "set (fst (add_uri bs t)) = snd (add_uri bs t)"
    by blast+
  have u: "snd (add_uri bs t) = snd bs \<union> {u. u \<noteq> [] \<and> Some u = tr_uri t}"
    using step by blast
  from Cons.IH [OF d s] show ?case
    unfolding u by auto
qed

lemma add_from_recs_pool:
  assumes "distinct (fst bs)" "set (fst bs) = snd bs"
  shows "fst (add_from_recs sp r bs) = (sp_recommendations sp r \<noteq> None)
       \<and> distinct (fst (snd (add_from_recs sp r bs)))
       \<and> set (fst (snd (add_from_recs sp r bs))) = snd (snd (add_from_recs sp r bs))
       \<and> snd (snd (add_from_recs sp r bs)) = snd bs \<union> returned sp r"
proof (cases "sp_recommendations sp r")
  case None
  then show ?thesis using assms by (simp add: add_from_recs_def returned_def)
next
  case (Some ts)
  then show ?thesis using foldl_add_uri_pool [OF assms, of ts]
    by (simp add: add_from_recs_def returned_def)
qed

lemma recs_chain_pool:
  "distinct (fst (snd (recs_chain sp k sa sg)))
   \<and> set (fst (snd (recs_chain sp k sa sg))) = snd (snd (recs_chain sp k sa sg))
   \<and> snd (snd (recs_chain sp k sa sg)) = (\<Union>r \<in> set (fst (recs_chain sp k sa sg)). returned sp r)"
proof -
  define slim where "slim = slim_kwargs k sa sg"
  define third where "third = genres_only_kwargs k sg"
  obtain ok1 b1 where a1: "add_from_recs sp k ([], {}) = (ok1, b1)"
    by (cases "add_from_recs sp k ([], {})")
  obtain ok2 b2 where a2: "add_from_recs sp slim b1 = (ok2, b2)"
    by (cases "add_from_recs sp slim b1")
  obtain ok3 b3 where a3: "add_from_recs sp third b2 = (ok3, b3)"
    by (cases "add_from_recs sp third b2")
  have p1: "ok1 = (sp_recommendations sp k \<noteq> None)" "distinct (fst b1)" "set (fst b1) = snd b1"
      "snd b1 = returned sp k"
    using add_from_recs_pool [of "([], {})" sp k] by (simp_all add: a1)
  have p2: "ok2 = (sp_recommendations sp slim \<noteq> None)" "distinct (fst b2)" "set (fst b2) = snd b2"
      "snd b2 = snd b1 \<union> returned sp slim"
    using add_from_recs_pool [OF p1(2,3), of sp slim] by (simp_all add: a2)
  have p3: "distinct (fst b3)" "set (fst b3) = snd b3"
      "snd b3 = snd b2 \<union> returned sp third"
    using add_from_recs_pool [OF p2(2,3), of sp third] by (simp_all add: a3)
  have rc: "recs_chain sp k sa sg =
      (if ok1 then ([k], b1)
       else if ok2 \<or> sg = [] then ([k, slim], b2)
       else ([k, slim, third], b3))"
    by (simp add: recs_chain_def Let_def a1 a2 a3 slim_def [symmetric] third_def [symmetric])
  show ?thesis
  proof (cases ok1)
    case True
    then show ?thesis using p1 by (simp add: rc)
  next
    case False
    note f1 = this
    show ?thesis
    proof (cases "ok2 \<or> sg = []")
      case True
      then show ?thesis using f1 p1 p2 by (simp add: rc)
    next
      case False
      then show ?thesis using f1 p1 p2 p3 by (simp add: rc Un_assoc)
    qed
  qed
qed

lemma chain_order:
  assumes "sent = full # (if sp_recommendations sp full = None
          then slim # (if sp_recommendations sp slim = None \<and> sg \<noteq> [] then [third] else [])
          else [])"
  shows "(sent = [full] \<or> sent = [full, slim] \<or> (sent = [full, slim, third] \<and> sg \<noteq> []))
       \<and> (sp_recommendations sp full = None \<longrightarrow> take 2 sent = [full, slim])
       \<and> (sp_recommendations sp full = None \<and> sp_recommendations sp slim = None \<longrightarrow>
                      sent = (if sg \<noteq> [] then [full, slim, third] else [full, slim]))
       \<and> ((\<exists>ts. sp_recommendations sp full = Some ts \<and> ts \<noteq> []) \<longrightarrow> sent = [full])
       \<and> (sp_recommendations sp full = None
            \<and> (\<exists>ts. sp_recommendations sp slim = Some ts \<and> ts \<noteq> []) \<longrightarrow> sent = [full, slim])"
proof (cases "sp_recommendations sp full")
  case (Some ts)
  then show ?thesis using assms by simp
next
  case None
  note n1 = this
  show ?thesis
  proof (cases "sp_recommendations sp slim")
    case (Some ts)
    then show ?thesis using assms n1 by simp
  next
    case None
    then show ?thesis using assms n1 by simp
  qed
qed

text \<open>
  C2. When \<^verbatim>\<open>int(...)\<close> accepts the tempo, the requests of a call are, in this order: the
  full request (seeds, the four jittered targets and the tempo target, none of them
  null, and the market), the same request without targets and seed tracks, and that
  request without artists, the last only when there are genre seeds. A request whose
  call raises is followed by the next one; after a call that returns at least one track
  no further request is made. The pool holds each identifier returned to a request once.
\<close>

theorem requester_stages:
  assumes "tempo_int (p_tempo_bpm ps) = Inr t"
  shows "\<exists>sg. (let sa = take 3 (p_user_artist_ids ps);
                   full = full_kwargs sp g ps n (max 40 (min 220 t)) sa sg;
                   slim = slim_kwargs full sa sg;
                   third = genres_only_kwargs full sg;
                   sent = out_requests (recommend_tracks sp g cache ps n);
                   pool = snd (recs_chain sp full sa sg)
               in sent = fst (recs_chain sp full sa sg)
                \<and> ((sent = [full] \<or> sent = [full, slim] \<or> (sent = [full, slim, third] \<and> sg \<noteq> []))
                \<and> (sp_recommendations sp full = None \<longrightarrow> take 2 sent = [full, slim])
                \<and> (sp_recommendations sp full = None \<and> sp_recommendations sp slim = None \<longrightarrow>
                      sent = (if sg \<noteq> [] then [full, slim, third] else [full, slim]))
                \<and> ((\<exists>ts. sp_recommendations sp full = Some ts \<and> ts \<noteq> []) \<longrightarrow> sent = [full])
                \<and> (sp_recommendations sp full = None
                     \<and> (\<exists>ts. sp_recommendations sp slim = Some ts \<and> ts \<noteq> []) \<longrightarrow>
                        sent = [full, slim]))
                \<and> (rq_market full = Some ''US''
                \<and> rq_target_energy full \<noteq> None \<and> rq_target_valence full \<noteq> None
                \<and> rq_target_danceability full \<noteq> None \<and> rq_target_acousticness full \<noteq> None
                \<and> rq_target_tempo full \<noteq> None)
                \<and> (rq_seed_artists full = sa \<and> rq_seed_genres full = sg)
                \<and> slim = full\<lparr>rq_target_energy := None, rq_target_valence := None,
                               rq_target_danceability := None, rq_target_acousticness := None,
                               rq_target_tempo := None, rq_seed_tracks := []\<rparr>
                \<and> third = slim\<lparr>rq_seed_artists := []\<rparr>
                \<and> (distinct (fst pool) \<and> set (fst pool) = snd pool
                \<and> snd pool = (\<Union>r \<in> set sent. returned sp r)))"
proof -
  define sa where "sa = take 3 (p_user_artist_ids ps)"
  have la: "length sa \<le> 3" by (simp add: sa_def)
  obtain sg where l: "length sg \<le> 5 - length sa"
    and req: "out_requests (recommend_tracks sp g cache ps n) =
               fst (recs_chain sp (full_kwargs sp g ps n (max 40 (min 220 t)) sa sg) sa sg)"
    using recommend_tracks_requests [OF assms] unfolding sa_def by blast
  define full where "full = full_kwargs sp g ps n (max 40 (min 220 t)) sa sg"
  define slim where "slim = slim_kwargs full sa sg"
  define third where "third = genres_only_kwargs full sg"
  define sent where "sent = out_requests (recommend_tracks sp g cache ps n)"
  define pool where "pool = snd (recs_chain sp full sa sg)"
  have s0: "sent = fst (recs_chain sp full sa sg)"
    by (simp add: sent_def req full_def)
  have s1: "sent = full # (if sp_recommendations sp full = None
          then slim # (if sp_recommendations sp slim = None \<and> sg \<noteq> [] then [third] else [])
          else [])"
    unfolding s0 recs_chain_sent slim_def third_def ..
  note order = chain_order [OF s1]
  have shape: "rq_market full = Some ''US''
      \<and> rq_target_energy full \<noteq> None \<and> rq_target_valence full \<noteq> None
      \<and> rq_target_danceability full \<noteq> None \<and> rq_target_acousticness full \<noteq> None
      \<and> rq_target_tempo full \<noteq> None"
    by (simp add: full_def full_kwargs_def Let_def j_target_def DEFAULT_MARKET_def)
  have fs: "rq_seed_artists full = sa \<and> rq_seed_genres full = sg"
    using full_seed_budget [OF la l, of sp g ps n "max 40 (min 220 t)"] by (simp add: full_def)
  have sl: "slim = full\<lparr>rq_target_energy := None, rq_target_valence := None,
                               rq_target_danceability := None, rq_target_acousticness := None,
                               rq_target_tempo := None, rq_seed_tracks := []\<rparr>"
    using fs shape la l
    by (simp add: slim_def slim_kwargs_def seeds_artists_id seeds_genres_id DEFAULT_MARKET_def)
  have th: "third = slim\<lparr>rq_seed_artists := []\<rparr>"
    using la l
    by (simp add: third_def slim_def genres_only_kwargs_def slim_kwargs_def seeds_genres_id)
  have pl: "distinct (fst pool) \<and> set (fst pool) = snd pool
      \<and> snd pool = (\<Union>r \<in> set sent. returned sp r)"
    using recs_chain_pool [of sp full sa sg] by (simp add: pool_def s0)
  note all = conjI [OF s0 conjI [OF order conjI [OF shape conjI [OF fs conjI [OF sl conjI [OF th pl]]]]]]
  show ?thesis
    unfolding Let_def
    by (rule exI [of _ sg]) (rule all [unfolded sa_def full_def slim_def third_def sent_def pool_def])
qed

theorem requester_stages_witness:
  "tempo_int (p_tempo_bpm default_params) = Inr 100
   \<and> map (\<lambda>r. (rq_target_tempo r, rq_seed_genres r, sp_recommendations picky_sp r = None))
       (out_requests (recommend_tracks picky_sp fixed_rng None default_params 15)) =
     [(Some 100, [''dance-pop'', ''edm'', ''hip-hop'', ''indie-pop'', ''pop''], True),
      (None, [''dance-pop'', ''edm'', ''hip-hop'', ''indie-pop'', ''pop''], False)]
   \<and> map (\<lambda>r. (rq_target_tempo r, rq_seed_artists r, rq_seed_genres r))
       (out_requests (recommend_tracks offline_sp fixed_rng None default_params 15)) =
     [(Some 100, [], [''dance-pop'', ''edm'', ''hip-hop'', ''indie-pop'', ''pop'']),
      (None, [], [''dance-pop'', ''edm'', ''hip-hop'', ''indie-pop'', ''pop'']),
      (None, [], [''dance-pop'', ''edm'', ''hip-hop'', ''indie-pop'', ''pop''])]"
proof -
  have a: "tempo_int (p_tempo_bpm default_params) = Inr 100"
    by (simp add: tempo_int_def default_params_def)
  have b: "map (\<lambda>r. (rq_target_tempo r, rq_seed_genres r, sp_recommendations picky_sp r = None))
       (out_requests (recommend_tracks picky_sp fixed_rng None default_params 15)) =
     [(Some 100, [''dance-pop'', ''edm'', ''hip-hop'', ''indie-pop'', ''pop''], True),
      (None, [''dance-pop'', ''edm'', ''hip-hop'', ''indie-pop'', ''pop''], False)]"
    by code_simp
  have c: "map (\<lambda>r. (rq_target_tempo r, rq_seed_artists r, rq_seed_genres r))
       (out_requests (recommend_tracks offline_sp fixed_rng None default_params 15)) =
     [(Some 100, [], [''dance-pop'', ''edm'', ''hip-hop'', ''indie-pop'', ''pop'']),
      (None, [], [''dance-pop'', ''edm'', ''hip-hop'', ''indie-pop'', ''pop'']),
      (None, [], [''dance-pop'', ''edm'', ''hip-hop'', ''indie-pop'', ''pop''])]"
    by code_simp
  from requester_stages [OF a, of picky_sp fixed_rng 15 None]
  have w: "\<exists>sg :: string list. True" by (rule exE) (rule exI, rule TrueI)
  from w a b c show ?thesis by (intro conjI)
qed

text \<open>
  Against a second stage with the same seeds and targets: the first request has no null
  target and its call raises; the request made next has no target at all, and it is the
  last.
\<close>

theorem requester_stages_counterexample:
  "map (\<lambda>r. (rq_target_energy r, rq_target_valence r, rq_target_danceability r,
              rq_target_acousticness r, rq_target_tempo r, sp_recommendations picky_sp r = None))
     (out_requests (recommend_tracks picky_sp fixed_rng None default_params 15)) =
   [(Some (1 / 2), Some (1 / 2), Some (1 / 2), Some (1 / 2), Some 100, True),
    (None, None, None, None, None, False)]"
  by code_simp

section \<open>Properties of the genre hero resolver\<close>

text \<open>
  C9. A call that returns \<^verbatim>\<open>None\<close> (or raises) leaves the cache as it was, and after a
  \<^verbatim>\<open>None\<close> for a non-empty key the cache holds nothing under that key, so the next call
  goes through the lookups again. A call that returns an entry leaves the cache with
  that entry under the trimmed, lower-cased genre and unchanged elsewhere; an entry
  found in the cache is returned as it is, whatever the service would answer.
\<close>

theorem hero_cache:
  "(fst (get_genre_hero sp cache genre) = Inr None \<longrightarrow>
      snd (get_genre_hero sp cache genre) = cache
      \<and> (hero_key genre \<noteq> [] \<longrightarrow> cache (hero_key genre) = None))
   \<and> (\<forall>e. fst (get_genre_hero sp cache genre) = Inl e \<longrightarrow>
          snd (get_genre_hero sp cache genre) = cache)
   \<and> (\<forall>d. fst (get_genre_hero sp cache genre) = Inr (Some d) \<longrightarrow>
          snd (get_genre_hero sp cache genre) = cache(hero_key genre \<mapsto> d))
   \<and> (\<forall>d. hero_key genre \<noteq> [] \<and> cache (hero_key genre) = Some d \<longrightarrow>
          get_genre_hero sp cache genre = (Inr (Some d), cache))
   \<and> (\<forall>k. k \<noteq> hero_key genre \<longrightarrow> snd (get_genre_hero sp cache genre) k = cache k)"
  by (auto simp: get_genre_hero_def store_def dynamic_hero_def hero_key_def Let_def
        split: option.splits sum.splits)

lemma key_pop: "hero_key ''  Pop '' = ''pop''" "hero_key ''POP'' = ''pop''" "hero_key ''Pop'' = ''pop''"
  by code_simp+

lemma first_call:
  "get_genre_hero hero_sp Map.empty ''  Pop '' = (Inr (Some swift_hero), [''pop'' \<mapsto> swift_hero])"
  using key_pop(1)
  by (simp add: get_genre_hero_def hero_key_def Let_def CANON_def safe_artist_def hero_sp_def
        offline_sp_def store_def hero_data_def swift_def swift_hero_def first_image_url_def)

lemma second_call:
  "get_genre_hero offline_sp [''pop'' \<mapsto> swift_hero] ''POP'' =
     (Inr (Some swift_hero), [''pop'' \<mapsto> swift_hero])"
  using key_pop(2)
  by (simp add: get_genre_hero_def hero_key_def Let_def)

lemma failed_call: "get_genre_hero offline_sp Map.empty ''Pop'' = (Inr None, Map.empty)"
  using key_pop(3)
  by (simp add: get_genre_hero_def hero_key_def Let_def CANON_def safe_artist_def
        offline_sp_def dynamic_hero_def search_artist_by_genre_def)

lemma retry_call:
  "get_genre_hero hero_sp (snd (get_genre_hero offline_sp Map.empty ''Pop'')) ''Pop'' =
     (Inr (Some swift_hero), [''pop'' \<mapsto> swift_hero])"
  using key_pop(3) unfolding failed_call
  by (simp add: get_genre_hero_def hero_key_def Let_def CANON_def safe_artist_def hero_sp_def
        offline_sp_def store_def hero_data_def swift_def swift_hero_def first_image_url_def)

theorem hero_cache_witness:
  "get_genre_hero offline_sp Map.empty ''Pop'' = (Inr None, Map.empty)
   \<and> get_genre_hero hero_sp (snd (get_genre_hero offline_sp Map.empty ''Pop'')) ''Pop'' =
        (Inr (Some swift_hero), [''pop'' \<mapsto> swift_hero])
   \<and> get_genre_hero hero_sp Map.empty ''  Pop '' = (Inr (Some swift_hero), [''pop'' \<mapsto> swift_hero])
   \<and> get_genre_hero offline_sp [''pop'' \<mapsto> swift_hero] ''POP'' =
        (Inr (Some swift_hero), [''pop'' \<mapsto> swift_hero])"
  using hero_cache [of offline_sp Map.empty "''Pop''"] failed_call retry_call first_call second_call
  by (intro conjI)

end
